theory Spec2Isabelle
  imports Complex_Main "HOL-Library.List_Lexorder" "HOL-Library.Char_ord" "HOL-Library.Multiset"
begin

section \<open>Python exceptions as values\<close>

text \<open>
  Every raise of the modelled Python code is a branch of the model: a computation returns
  \<open>py_error + 'a\<close>, with \<open>Inl\<close> for the exception that ends it.
\<close>

datatype py_error =
    IndexError
  | LookupError
  | TypeError
  | AttributeError
  | FileNotFoundError
  | UnpicklingError
  | ZeroDivisionError
  | ValueError
  | RuntimeError

definition bind_err :: "py_error + 'a \<Rightarrow> ('a \<Rightarrow> py_error + 'b) \<Rightarrow> py_error + 'b" where
  "bind_err m f = (case m of Inl e \<Rightarrow> Inl e | Inr x \<Rightarrow> f x)"

section \<open>shadows\_model/model.py: the GtsrbCNN architecture, at the level of tensor shapes\<close>

text \<open>
  A per-sample tensor shape is the list of its dimensions without the batch dimension:
  \<open>[channels, height, width]\<close> for an image, \<open>[features]\<close> for a flattened vector.
  Kernels and strides of the source are square (\<open>(5, 5)\<close>, \<open>(1, 1)\<close>), so one number
  stands for both directions.
\<close>

datatype layer =
    Conv2d nat nat nat nat nat
  | MaxPool2d nat nat nat
  | Linear nat nat
  | ReLU
  | Dropout

text \<open>
  The output length of a sliding window (convolution or pooling, dilation 1, floor mode) over
  \<open>n\<close> positions with kernel \<open>k\<close>, stride \<open>s\<close> and padding \<open>p\<close>. A window larger than the
  padded input is a RuntimeError of the library.
\<close>

definition window_out :: "nat \<Rightarrow> nat \<Rightarrow> nat \<Rightarrow> nat \<Rightarrow> py_error + nat" where
  "window_out n k s p =
     (if s = 0 \<or> n + 2 * p < k then Inl RuntimeError
      else Inr ((n + 2 * p - k) div s + 1))"

fun layer_shape :: "layer \<Rightarrow> nat list \<Rightarrow> py_error + nat list" where
  "layer_shape (Conv2d c_in c_out k s p) [c, h, w] =
     (if c \<noteq> c_in then Inl RuntimeError
      else bind_err (window_out h k s p) (\<lambda>h'.
           bind_err (window_out w k s p) (\<lambda>w'. Inr [c_out, h', w'])))"
| "layer_shape (Conv2d c_in c_out k s p) sh = Inl RuntimeError"
| "layer_shape (MaxPool2d k s p) [c, h, w] =
     bind_err (window_out h k s p) (\<lambda>h'.
     bind_err (window_out w k s p) (\<lambda>w'. Inr [c, h', w']))"
| "layer_shape (MaxPool2d k s p) sh = Inl RuntimeError"
| "layer_shape (Linear f_in f_out) [n] = (if n = f_in then Inr [f_out] else Inl RuntimeError)"
| "layer_shape (Linear f_in f_out) sh = Inl RuntimeError"
| "layer_shape ReLU sh = Inr sh"
| "layer_shape Dropout sh = Inr sh"

text \<open>\<open>nn.Sequential\<close>: the layers in order, each on the output of the one before.\<close>

fun sequential :: "layer list \<Rightarrow> nat list \<Rightarrow> py_error + nat list" where
  "sequential [] sh = Inr sh"
| "sequential (l # ls) sh = bind_err (layer_shape l sh) (sequential ls)"

text \<open>The layers of \<open>GtsrbCNN.__init__\<close>, in the order and with the numbers of the source.\<close>

definition color_map :: "layer list" where
  "color_map = [Conv2d 3 3 1 1 0]"

definition module1 :: "layer list" where
  "module1 = [Conv2d 3 32 5 1 2, ReLU, Conv2d 32 32 5 1 2, MaxPool2d 2 2 0, ReLU, Dropout]"

definition module2 :: "layer list" where
  "module2 = [Conv2d 32 64 5 1 2, ReLU, Conv2d 64 64 5 1 2, MaxPool2d 2 2 0, ReLU, Dropout]"

definition module3 :: "layer list" where
  "module3 = [Conv2d 64 128 5 1 2, ReLU, Conv2d 128 128 5 1 2, MaxPool2d 2 2 0, ReLU, Dropout]"

definition fc1 :: "layer list" where
  "fc1 = [Linear 14336 1024, ReLU, Dropout]"

definition fc2 :: "layer list" where
  "fc2 = [Linear 1024 1024, ReLU, Dropout]"

definition fc3 :: "layer list" where
  "fc3 = [Linear 1024 43]"

text \<open>\<open>branch.reshape(branch.shape[0], -1)\<close>: everything but the batch dimension in one.\<close>

definition flatten :: "nat list \<Rightarrow> nat list" where
  "flatten sh = [prod_list sh]"

text \<open>\<open>torch.cat([b1, b2, b3], 1)\<close> of flattened branches: the feature counts add up.\<close>

definition cat1 :: "nat list list \<Rightarrow> nat list" where
  "cat1 shs = [sum_list (map prod_list shs)]"

text \<open>
  \<open>GtsrbCNN.forward\<close> up to the concatenation (source lines 61 to 69): the shape of
  \<open>concat\<close>, the vector that \<open>fc1\<close> consumes.
\<close>

definition concat_shape :: "nat list \<Rightarrow> py_error + nat list" where
  "concat_shape x =
     bind_err (sequential color_map x) (\<lambda>x1.
     bind_err (sequential module1 x1) (\<lambda>branch1.
     bind_err (sequential module2 branch1) (\<lambda>branch2.
     bind_err (sequential module3 branch2) (\<lambda>branch3.
       Inr (cat1 [flatten branch1, flatten branch2, flatten branch3])))))"

definition forward :: "nat list \<Rightarrow> py_error + nat list" where
  "forward x =
     bind_err (concat_shape x) (\<lambda>concat.
     bind_err (sequential fc1 concat) (\<lambda>out1.
     bind_err (sequential fc2 out1) (\<lambda>out2.
       sequential fc3 out2)))"

section \<open>shadows\_model/model.py: image augmentation\<close>

text \<open>
  The array, vision and random-number libraries are outside the repository. Their operations
  enter as the fields of one record: the code is modelled over any such operations.
  \<^item> \<open>random_sample k\<close> is the \<open>k\<close>-th draw of the global generator, a number of \<open>[0, 1)\<close>;
    the model threads the count of the draws consumed so far (the cursor).
  \<^item> \<open>random_shuffle k xs\<close> is the outcome of \<open>np.random.shuffle\<close> on \<open>xs\<close> at cursor \<open>k\<close>.
  \<^item> \<open>float32_image\<close> and \<open>float32_label\<close> are the conversions of
    \<open>np.array(..., dtype=np.float32())\<close>.
  In this part Python floats are idealised as real numbers.
\<close>

record ('img, 'arr, 'lbl, 'num) libs =
  img_shape :: "'img \<Rightarrow> nat \<times> nat \<times> nat"
  getRotationMatrix2D :: "real \<times> real \<Rightarrow> real \<Rightarrow> real \<Rightarrow> real list list"
  getAffineTransform :: "real list list \<Rightarrow> real list list \<Rightarrow> real list list"
  warpAffine :: "'img \<Rightarrow> real list list \<Rightarrow> nat \<times> nat \<Rightarrow> 'img"
  equalizeHist :: "'img \<Rightarrow> nat \<Rightarrow> 'img"
  div_sub :: "'img \<Rightarrow> real \<Rightarrow> real \<Rightarrow> 'img"
  random_sample :: "nat \<Rightarrow> real"
  random_shuffle :: "nat \<Rightarrow> nat list \<Rightarrow> nat list"
  float32_image :: "'img \<Rightarrow> 'arr"
  float32_label :: "'lbl \<Rightarrow> 'num"

text \<open>
  \<open>np.random.uniform(low=0.0, high=1.0)\<close> with the draw \<open>u\<close> of the generator:
  \<open>low + (high - low) * u\<close>. The first positional argument is \<open>low\<close>.
\<close>

definition np_random_uniform :: "real \<Rightarrow> real \<Rightarrow> real \<Rightarrow> real" where
  "np_random_uniform low high u = low + (high - low) * u"

text \<open>
  \<open>pre_process_image\<close>: histogram equalisation of the channels 0, 1, 2 in turn, then
  \<open>image / 255.0 - 0.5\<close>.
\<close>

definition pre_process_image :: "('img, 'arr, 'lbl, 'num) libs \<Rightarrow> 'img \<Rightarrow> 'img" where
  "pre_process_image L img =
     div_sub L (equalizeHist L (equalizeHist L (equalizeHist L img 0) 1) 2) 255 (1 / 2)"

text \<open>
  The five random parameters of \<open>transform_image\<close>, from the five draws it makes in source
  order (lines 101, 106, 107, 113, 114). Line 101 is
  \<open>np.random.uniform(ang_range) - ang_range / 2\<close>: \<open>ang_range\<close> is passed as \<open>low\<close> and
  \<open>high\<close> keeps its default 1. The lines 106 to 114 call \<open>np.random.uniform()\<close> with no
  argument and multiply the draw by the range.
\<close>

record transform_params =
  ang_rot :: real
  tr_x :: real
  tr_y :: real
  pt1 :: real
  pt2 :: real

definition draw_params ::
  "('img, 'arr, 'lbl, 'num) libs \<Rightarrow> nat \<Rightarrow> real \<Rightarrow> real \<Rightarrow> real \<Rightarrow> transform_params" where
  "draw_params L c ang_range shear_range trans_range =
     \<lparr> ang_rot = np_random_uniform ang_range 1 (random_sample L c) - ang_range / 2,
       tr_x = trans_range * np_random_uniform 0 1 (random_sample L (c + 1)) - trans_range / 2,
       tr_y = trans_range * np_random_uniform 0 1 (random_sample L (c + 2)) - trans_range / 2,
       pt1 = 5 + shear_range * np_random_uniform 0 1 (random_sample L (c + 3)) - shear_range / 2,
       pt2 = 20 + shear_range * np_random_uniform 0 1 (random_sample L (c + 4)) - shear_range / 2 \<rparr>"

text \<open>
  \<open>transform_image\<close>: rotation, translation and shear matrices from the parameters, the three
  warps in the order of the source, then the optional preprocessing. It returns the image and
  the cursor after its five draws.
\<close>

definition transform_image ::
  "('img, 'arr, 'lbl, 'num) libs \<Rightarrow> nat \<Rightarrow> 'img \<Rightarrow> real \<Rightarrow> real \<Rightarrow> real \<Rightarrow> bool \<Rightarrow> 'img \<times> nat" where
  "transform_image L c img ang_range shear_range trans_range preprocess =
     (let P = draw_params L c ang_range shear_range trans_range in
      case img_shape L img of (rows, cols, ch) \<Rightarrow>
      let rot_m = getRotationMatrix2D L (real cols / 2, real rows / 2) (ang_rot P) 1;
          trans_m = [[1, 0, tr_x P], [0, 1, tr_y P]];
          pts1 = [[5, 5], [20, 5], [5, 20]];
          pts2 = [[pt1 P, 5], [pt2 P, pt1 P], [5, pt2 P]];
          shear_m = getAffineTransform L pts1 pts2;
          image1 = warpAffine L img rot_m (cols, rows);
          image2 = warpAffine L image1 trans_m (cols, rows);
          image3 = warpAffine L image2 shear_m (cols, rows)
      in (if preprocess then pre_process_image L image3 else image3, c + 5))"

text \<open>Python's \<open>xs[i]\<close> for an index \<open>i \<ge> 0\<close>, and \<open>range(n)\<close> for an integer \<open>n\<close>.\<close>

definition py_getitem :: "'a list \<Rightarrow> nat \<Rightarrow> py_error + 'a" where
  "py_getitem xs i = (if i < length xs then Inr (xs ! i) else Inl IndexError)"

definition py_range :: "int \<Rightarrow> nat list" where
  "py_range n = [0 ..< nat n]"

text \<open>A \<open>for\<close> loop over indices whose body may raise: the first exception ends the loop.\<close>

fun for_each :: "('s \<Rightarrow> nat \<Rightarrow> py_error + 's) \<Rightarrow> nat list \<Rightarrow> 's \<Rightarrow> py_error + 's" where
  "for_each body [] s = Inr s"
| "for_each body (i # ixs) s = bind_err (body s i) (for_each body ixs)"

text \<open>
  The body of the inner loop of \<open>gen_extra_data\<close> (lines 146 to 150) for image \<open>i\<close>. The state
  is \<open>(x_arr, y_arr, cursor)\<close>.
\<close>

definition gen_body ::
  "('img, 'arr, 'lbl, 'num) libs \<Rightarrow> 'img list \<Rightarrow> 'lbl list \<Rightarrow> real \<Rightarrow> real \<Rightarrow> real \<Rightarrow> bool \<Rightarrow>
   nat \<Rightarrow> 'img list \<times> 'lbl list \<times> nat \<Rightarrow> nat \<Rightarrow> py_error + 'img list \<times> 'lbl list \<times> nat" where
  "gen_body L x_train y_train ang_range shear_range trans_range preprocess i st i_n =
     (case st of (x_arr, y_arr, c) \<Rightarrow>
        case transform_image L c (x_train ! i) ang_range shear_range trans_range preprocess of
          (img_trf, c') \<Rightarrow>
            bind_err (py_getitem y_train i) (\<lambda>y. Inr (x_arr @ [img_trf], y_arr @ [y], c')))"

text \<open>
  \<open>arr[idx] = vals\<close> with an integer index array and as many values as indices: the values
  are written in order, \<open>arr[idx[k]] = vals[k]\<close>. The library copies \<open>vals\<close> first when it
  shares memory with \<open>arr\<close>, so \<open>vals\<close> here is the array as it was before the assignment.
\<close>

definition setitem_fancy :: "'a list \<Rightarrow> nat list \<Rightarrow> 'a list \<Rightarrow> py_error + 'a list" where
  "setitem_fancy arr idx vals =
     (if list_ex (\<lambda>i. length arr \<le> i) idx then Inl IndexError
      else if length idx \<noteq> length vals then Inl ValueError
      else Inr (fold (\<lambda>(i, v) a. a[i := v]) (zip idx vals) arr))"

text \<open>
  \<open>gen_extra_data\<close>, called when the generator has made \<open>c0\<close> draws. It returns
  \<open>(x_arr, y_arr)\<close>. \<open>randomize_var\<close> is compared with the integer 1.
\<close>

definition gen_extra_data ::
  "('img, 'arr, 'lbl, 'num) libs \<Rightarrow> nat \<Rightarrow> 'img list \<Rightarrow> 'lbl list \<Rightarrow> int \<Rightarrow> real \<Rightarrow> real \<Rightarrow> real \<Rightarrow>
   int \<Rightarrow> bool \<Rightarrow> py_error + 'arr list \<times> 'num list" where
  "gen_extra_data L c0 x_train y_train n_each ang_range shear_range trans_range randomize_var
       preprocess =
     (let n_train = length x_train in
      bind_err
        (for_each
           (\<lambda>st i. for_each
              (gen_body L x_train y_train ang_range shear_range trans_range preprocess i)
              (py_range n_each) st)
           (py_range (int n_train)) ([], [], c0))
        (\<lambda>(xs, ys, c).
           let x_arr = map (float32_image L) xs;
               y_arr = map (float32_label L) ys
           in if randomize_var = 1 then
                (let len_arr = random_shuffle L c [0 ..< length y_arr] in
                 bind_err (setitem_fancy x_arr len_arr x_arr) (\<lambda>x_arr'.
                 bind_err (setitem_fancy y_arr len_arr y_arr) (\<lambda>y_arr'.
                   Inr (x_arr', y_arr'))))
              else Inr (x_arr, y_arr)))"

section \<open>AndrewNet: effects as a trace\<close>

text \<open>
  The AndrewNet drivers read and write files, load a model and call the attack. A computation
  returns the trace of the effects it performed, in order, and either the exception that
  ended it or its result. The trace of a failed computation holds what happened before the
  failure.
\<close>

datatype regime = TRAIN | TEST_A | TEST_B | TEST_C

datatype event =
    ImportTest
  | CallLoadMask
  | CallMain
  | Dispatch regime
  | ListDir string
  | ConstructModel
  | TorchLoad string
  | OpenRead string
  | CallAttack nat
  | PrintLine string
  | PrintRobustness real
  | PrintAvgQueries real
  | OpenWrite string
  | PickleDump string real real

type_synonym 'a io = "event list \<times> (py_error + 'a)"

definition return_io :: "'a \<Rightarrow> 'a io" where
  "return_io x = ([], Inr x)"

definition raise_io :: "py_error \<Rightarrow> 'a io" where
  "raise_io e = ([], Inl e)"

definition emit :: "event \<Rightarrow> unit io" where
  "emit ev = ([ev], Inr ())"

definition lift_io :: "py_error + 'a \<Rightarrow> 'a io" where
  "lift_io m = ([], m)"

definition bind_io :: "'a io \<Rightarrow> ('a \<Rightarrow> 'b io) \<Rightarrow> 'b io" where
  "bind_io m f =
     (case m of
        (tr, Inl e) \<Rightarrow> (tr, Inl e)
      | (tr, Inr x) \<Rightarrow> (case f x of (tr', r) \<Rightarrow> (tr @ tr', r)))"

fun for_each_io :: "('s \<Rightarrow> nat \<Rightarrow> 's io) \<Rightarrow> nat list \<Rightarrow> 's \<Rightarrow> 's io" where
  "for_each_io body [] s = return_io s"
| "for_each_io body (i # ixs) s = bind_io (body s i) (for_each_io body ixs)"

text \<open>
  The file system as the drivers see it: the entries of a directory (\<open>None\<close> when the
  directory does not exist), what a path deserialises to (\<open>None\<close> when there is no file;
  relative paths are relative to the working directory), and whether a file can be
  created at a path.
\<close>

datatype ('img, 'lbl) content =
    StateDict
  | DataPickle "'img list" "'lbl list"
  | OtherContent

record ('img, 'lbl) world =
  listing :: "string \<Rightarrow> string list option"
  file_at :: "string \<Rightarrow> ('img, 'lbl) content option"
  can_create :: "string \<Rightarrow> bool"

text \<open>
  The module \<open>shadow_utils\<close> is not among the sources. Its functions enter as the fields of a
  record; \<open>load_mask\<close> is the outcome of the call \<open>load_mask()\<close>, which reads a fixed resource:
  an exception, or the pair \<open>(POSITION_LIST, MASK_LIST)\<close>. Both are indexed by the mask type
  that \<open>judge_mask_type\<close> returns, and an index they do not have is a LookupError
  (IndexError or KeyError).
\<close>

record ('img, 'lbl, 'k, 'mask, 'pos) shadow_utils =
  load_mask :: "py_error + ('k \<Rightarrow> 'pos option) \<times> ('k \<Rightarrow> 'mask option)"
  judge_mask_type :: "string \<Rightarrow> 'lbl \<Rightarrow> 'k"
  brightness :: "'img \<Rightarrow> 'mask \<Rightarrow> real"
  attack :: "'img \<Rightarrow> 'lbl \<Rightarrow> 'pos \<Rightarrow> 'img \<times> bool \<times> int"

record ('k, 'mask, 'pos) test_globals =
  POSITION_LIST :: "'k \<Rightarrow> 'pos option"
  MASK_LIST :: "'k \<Rightarrow> 'mask option"

definition lookup :: "('k \<Rightarrow> 'v option) \<Rightarrow> 'k \<Rightarrow> py_error + 'v" where
  "lookup m k = (case m k of None \<Rightarrow> Inl LookupError | Some v \<Rightarrow> Inr v)"

section \<open>AndrewNet/test.py\<close>

text \<open>
  The top level of \<open>test.py\<close>, executed when the module is imported: after the imports,
  line 20 calls \<open>load_mask()\<close> and binds the two globals. The module is not run as a script,
  so its \<open>main()\<close> is not called.
\<close>

definition import_test ::
  "('img, 'lbl, 'k, 'mask, 'pos) shadow_utils \<Rightarrow> ('k, 'mask, 'pos) test_globals io" where
  "import_test su =
     bind_io (emit ImportTest) (\<lambda>_.
     bind_io (emit CallLoadMask) (\<lambda>_.
     bind_io (lift_io (load_mask su)) (\<lambda>(position_list, mask_list).
       return_io \<lparr> POSITION_LIST = position_list, MASK_LIST = mask_list \<rparr>)))"

text \<open>\<open>files[-1]\<close>: the last element, an IndexError on the empty list.\<close>

definition py_last :: "'a list \<Rightarrow> py_error + 'a" where
  "py_last xs = (case xs of [] \<Rightarrow> Inl IndexError | _ # _ \<Rightarrow> Inr (last xs))"

text \<open>
  Lines 25 to 27. \<open>not filename\<close> holds for \<open>None\<close> and for the empty string. \<open>sorted\<close> on
  strings is the lexicographic order on their characters.
\<close>

definition latest_checkpoint :: "('img, 'lbl) world \<Rightarrow> string io" where
  "latest_checkpoint w =
     bind_io (emit (ListDir ''./checkpoints/'')) (\<lambda>_.
       case listing w ''./checkpoints/'' of
         None \<Rightarrow> raise_io FileNotFoundError
       | Some entries \<Rightarrow> lift_io (py_last (sort entries)))"

definition resolve_checkpoint :: "('img, 'lbl) world \<Rightarrow> string option \<Rightarrow> string io" where
  "resolve_checkpoint w filename =
     (case filename of
        None \<Rightarrow> latest_checkpoint w
      | Some name \<Rightarrow> if name = [] then latest_checkpoint w else return_io name)"

text \<open>Lines 28 to 36: the model is constructed, then the checkpoint is read from \<open>filename\<close>.\<close>

definition load_model :: "('img, 'lbl) world \<Rightarrow> string \<Rightarrow> unit io" where
  "load_model w filename =
     bind_io (emit ConstructModel) (\<lambda>_.
     bind_io (emit (TorchLoad filename)) (\<lambda>_.
       case file_at w filename of
         None \<Rightarrow> raise_io FileNotFoundError
       | Some StateDict \<Rightarrow> return_io ()
       | Some (DataPickle xs ys) \<Rightarrow> raise_io RuntimeError
       | Some OtherContent \<Rightarrow> raise_io UnpicklingError))"

text \<open>Lines 38 to 40: the pickled test set, a mapping with the keys \<open>data\<close> and \<open>labels\<close>.\<close>

definition load_test_data :: "('img, 'lbl) world \<Rightarrow> string \<Rightarrow> ('img list \<times> 'lbl list) io" where
  "load_test_data w testing_dataset =
     bind_io (emit (OpenRead testing_dataset)) (\<lambda>_.
       case file_at w testing_dataset of
         None \<Rightarrow> raise_io FileNotFoundError
       | Some (DataPickle images labels) \<Rightarrow> return_io (images, labels)
       | Some StateDict \<Rightarrow> raise_io LookupError
       | Some OtherContent \<Rightarrow> raise_io UnpicklingError)"

text \<open>
  The body of the loop of lines 44 to 51 at \<open>index\<close>; the state is
  \<open>(num_successes, total_num_query)\<close>. \<open>success\<close> is a flag and counts as 0 or 1.
\<close>

definition attack_body ::
  "('img, 'lbl, 'k, 'mask, 'pos) shadow_utils \<Rightarrow> ('k, 'mask, 'pos) test_globals \<Rightarrow>
   'img list \<Rightarrow> 'lbl list \<Rightarrow> int \<times> int \<Rightarrow> nat \<Rightarrow> (int \<times> int) io" where
  "attack_body su g images labels st index =
     (case st of (num_successes, total_num_query) \<Rightarrow>
      bind_io (lift_io (py_getitem labels index)) (\<lambda>label.
      let mask_type = judge_mask_type su ''GTSRB'' label in
      bind_io (lift_io (lookup (MASK_LIST g) mask_type)) (\<lambda>mask.
        if brightness su (images ! index) mask \<ge> 120 then
          bind_io (lift_io (lookup (POSITION_LIST g) mask_type)) (\<lambda>positions.
          bind_io (emit (CallAttack index)) (\<lambda>_.
            case attack su (images ! index) label positions of
              (adv, success, num_query) \<Rightarrow>
                return_io (num_successes + (if success then 1 else 0),
                           total_num_query + num_query)))
        else return_io (num_successes, total_num_query))))"

definition attack_loop ::
  "('img, 'lbl, 'k, 'mask, 'pos) shadow_utils \<Rightarrow> ('k, 'mask, 'pos) test_globals \<Rightarrow>
   'img list \<Rightarrow> 'lbl list \<Rightarrow> (int \<times> int) io" where
  "attack_loop su g images labels =
     for_each_io (attack_body su g images labels) (py_range (int (length images))) (0, 0)"

text \<open>
  Python floats are IEEE binary64 numbers. A float is modelled by the real number it denotes;
  \<open>binary64 x\<close> is the float nearest to the real \<open>x\<close>: \<open>x\<close> rounded to 53 significant bits, a tie
  to the even significand. Every float operation of the code below is the exact operation
  followed by this rounding. The exponent is not limited here: overflow and subnormal
  numbers are outside the model, and the statements about these floats are for counts in
  the range where they do not arise.
\<close>

definition round_half_even :: "real \<Rightarrow> int" where
  "round_half_even y =
     (let f = \<lfloor>y\<rfloor>; d = y - of_int f
      in if d < 1 / 2 then f else if 1 / 2 < d then f + 1 else if even f then f else f + 1)"

definition binary64 :: "real \<Rightarrow> real" where
  "binary64 x =
     (if x = 0 then 0
      else (let e = \<lfloor>log 2 \<bar>x\<bar>\<rfloor>; ulp = 2 powr (of_int e - 52)
            in of_int (round_half_even (x / ulp)) * ulp))"

text \<open>
  Python's \<open>round(x, ndigits)\<close> of a float \<open>x\<close>: the exact value of \<open>x\<close> is rounded to the nearest
  multiple of \<open>10 ^ (- ndigits)\<close>, a tie to the even one, and the result is the float nearest to
  that decimal.
\<close>

definition py_round :: "real \<Rightarrow> nat \<Rightarrow> real" where
  "py_round x ndigits = binary64 (of_int (round_half_even (x * 10 ^ ndigits)) / 10 ^ ndigits)"

text \<open>
  Lines 53 and 54; the result is \<open>(robustness, avg_queries)\<close>. In line 53
  \<open>float(total_num_query)\<close> is the float nearest to the integer, and the division converts
  \<open>len(images)\<close> to a float and rounds the quotient. In line 54 the quotient of the two integers
  is the float nearest to the exact quotient, and \<open>1 - ...\<close> is a float subtraction.
\<close>

definition report_metrics :: "int \<Rightarrow> int \<Rightarrow> nat \<Rightarrow> py_error + real \<times> real" where
  "report_metrics num_successes total_num_query n_images =
     (if n_images = 0 then Inl ZeroDivisionError
      else
        (let avg_queries =
               py_round (binary64 (binary64 (of_int total_num_query)
                                     / binary64 (of_nat n_images))) 4;
             robustness =
               binary64 (1 - py_round (binary64 (of_int num_successes / of_nat n_images)) 4)
         in Inr (robustness, avg_queries)))"

text \<open>Lines 42 to 54 on the loaded test set.\<close>

definition evaluate ::
  "('img, 'lbl, 'k, 'mask, 'pos) shadow_utils \<Rightarrow> ('k, 'mask, 'pos) test_globals \<Rightarrow>
   'img list \<Rightarrow> 'lbl list \<Rightarrow> (real \<times> real) io" where
  "evaluate su g images labels =
     bind_io (attack_loop su g images labels) (\<lambda>(num_successes, total_num_query).
       lift_io (report_metrics num_successes total_num_query (length images)))"

text \<open>The name of the results file of line 61, from \<open>filename[6:]\<close>.\<close>

definition results_path :: "string \<Rightarrow> string" where
  "results_path filename = ''./testing_results/results_'' @ drop 6 filename @ ''.json''"

text \<open>Lines 55 to 62: the two prints, then the results are dumped into the results file.\<close>

definition report_results :: "('img, 'lbl) world \<Rightarrow> string \<Rightarrow> real \<times> real \<Rightarrow> unit io" where
  "report_results w filename res =
     (case res of (robustness, avg_queries) \<Rightarrow>
        bind_io (emit (PrintRobustness robustness)) (\<lambda>_.
        bind_io (emit (PrintAvgQueries avg_queries)) (\<lambda>_.
        bind_io (emit (OpenWrite (results_path filename))) (\<lambda>_.
          if can_create w (results_path filename)
          then emit (PickleDump (results_path filename) robustness avg_queries)
          else raise_io FileNotFoundError))))"

text \<open>Lines 28 to 62: \<open>test_regime_a\<close> from line 28 on, with \<open>filename\<close> resolved.\<close>

definition test_regime_a_from ::
  "('img, 'lbl, 'k, 'mask, 'pos) shadow_utils \<Rightarrow> ('k, 'mask, 'pos) test_globals \<Rightarrow>
   ('img, 'lbl) world \<Rightarrow> string \<Rightarrow> 'dev \<Rightarrow> string \<Rightarrow> unit io" where
  "test_regime_a_from su g w testing_dataset device filename =
     bind_io (load_model w filename) (\<lambda>_.
     bind_io (load_test_data w testing_dataset) (\<lambda>(images, labels).
     bind_io (evaluate su g images labels) (report_results w filename)))"

text \<open>\<open>test_regime_a(testing_dataset, device, filename)\<close>.\<close>

definition test_regime_a ::
  "('img, 'lbl, 'k, 'mask, 'pos) shadow_utils \<Rightarrow> ('k, 'mask, 'pos) test_globals \<Rightarrow>
   ('img, 'lbl) world \<Rightarrow> string \<Rightarrow> 'dev \<Rightarrow> string option \<Rightarrow> unit io" where
  "test_regime_a su g w testing_dataset device filename =
     bind_io (resolve_checkpoint w filename)
       (test_regime_a_from su g w testing_dataset device)"

section \<open>AndrewNet/andrewnet.py\<close>

text \<open>The parsed command line (\<open>args\<close> of \<open>main\<close>) and the values passed in calls.\<close>

record cli_args =
  regime :: regime
  data_fraction :: real
  train_dataset_location :: string
  test_dataset_location :: string
  model_to_test :: "string option"
  proportion :: real

datatype pyval = PyStr string | PyFloat real | PyNone | PyDevice

definition py_opt_str :: "string option \<Rightarrow> pyval" where
  "py_opt_str s = (case s of None \<Rightarrow> PyNone | Some x \<Rightarrow> PyStr x)"

text \<open>
  The functions that \<open>test.py\<close> defines, with their parameter lists (lines 23 and 65). None
  has a default or a starred parameter.
\<close>

definition test_module_defs :: "(string \<times> string list) list" where
  "test_module_defs =
     [(''test_regime_a'', [''testing_dataset'', ''device'', ''filename'']),
      (''main'', [])]"

text \<open>
  A call \<open>test.name(actuals)\<close> with positional arguments only: the attribute is looked up
  (AttributeError when the module has no such name), then the arguments are bound to the
  parameters (TypeError when their numbers differ).
\<close>

definition call_positional ::
  "(string \<times> string list) list \<Rightarrow> string \<Rightarrow> pyval list \<Rightarrow> py_error + (string \<times> pyval) list" where
  "call_positional defs name actuals =
     (case map_of defs name of
        None \<Rightarrow> Inl AttributeError
      | Some params \<Rightarrow>
          if length actuals = length params then Inr (zip params actuals)
          else Inl TypeError)"

definition call_test ::
  "('img, 'lbl, 'k, 'mask, 'pos) shadow_utils \<Rightarrow> ('k, 'mask, 'pos) test_globals \<Rightarrow>
   ('img, 'lbl) world \<Rightarrow> string \<Rightarrow> pyval list \<Rightarrow> unit io" where
  "call_test su g w name actuals =
     bind_io (lift_io (call_positional test_module_defs name actuals)) (\<lambda>bound.
       if name = ''test_regime_a'' then
         (case map snd bound of
            [PyStr testing_dataset, device, PyNone] \<Rightarrow>
              test_regime_a su g w testing_dataset device None
          | [PyStr testing_dataset, device, PyStr filename] \<Rightarrow>
              test_regime_a su g w testing_dataset device (Some filename)
          | _ \<Rightarrow> raise_io TypeError)
       else emit (PrintLine ''Hello World!''))"

text \<open>
  \<open>main\<close> after \<open>parse_args\<close>: the \<open>match\<close> on the regime (lines 136 to 152). The training
  driver \<open>train_model\<close> is numerical code over the tensor library; it enters as a parameter.
\<close>

definition main ::
  "('img, 'lbl, 'k, 'mask, 'pos) shadow_utils \<Rightarrow> ('k, 'mask, 'pos) test_globals \<Rightarrow>
   ('img, 'lbl) world \<Rightarrow> (cli_args \<Rightarrow> unit io) \<Rightarrow> cli_args \<Rightarrow> unit io" where
  "main su g w train_model args =
     bind_io (emit CallMain) (\<lambda>_.
     bind_io (emit (Dispatch (regime args))) (\<lambda>_.
       case regime args of
         TRAIN \<Rightarrow> train_model args
       | TEST_A \<Rightarrow>
           call_test su g w ''test_regime_a''
             [PyStr (test_dataset_location args), PyDevice, PyFloat (proportion args),
              py_opt_str (model_to_test args)]
       | TEST_B \<Rightarrow>
           call_test su g w ''test_regime_b''
             [PyStr (test_dataset_location args), PyDevice, py_opt_str (model_to_test args)]
       | TEST_C \<Rightarrow>
           call_test su g w ''test_regime_c''
             [PyStr (train_dataset_location args), PyStr (test_dataset_location args),
              PyDevice, PyFloat (proportion args), py_opt_str (model_to_test args)]))"

text \<open>
  The script \<open>andrewnet.py\<close> run as the program: line 3 imports \<open>test\<close>, which executes the top
  level of \<open>test.py\<close>; the last line calls \<open>main()\<close>.
\<close>

definition andrewnet ::
  "('img, 'lbl, 'k, 'mask, 'pos) shadow_utils \<Rightarrow> ('img, 'lbl) world \<Rightarrow>
   (cli_args \<Rightarrow> unit io) \<Rightarrow> cli_args \<Rightarrow> unit io" where
  "andrewnet su w train_model args =
     bind_io (import_test su) (\<lambda>g. main su g w train_model args)"

section \<open>Notions for the statements about the attack loop\<close>

text \<open>
  For a test set \<open>images\<close>, \<open>labels\<close> and the loaded globals: \<open>masks_loaded\<close> says that image
  \<open>i\<close> has a label and that its mask type has the reference mask \<open>mask_of i\<close> and the position
  list \<open>pos_of i\<close>; \<open>bright\<close> is the test of line 46 on image \<open>i\<close>; \<open>attack_success\<close> and
  \<open>attack_queries\<close> are what the attack of line 47 on image \<open>i\<close> adds to the two counters.
\<close>

definition bright ::
  "('img, 'lbl, 'k, 'mask, 'pos) shadow_utils \<Rightarrow> 'img list \<Rightarrow> (nat \<Rightarrow> 'mask) \<Rightarrow> nat \<Rightarrow> bool" where
  "bright su images mask_of i = (120 \<le> brightness su (images ! i) (mask_of i))"

definition attack_success ::
  "('img, 'lbl, 'k, 'mask, 'pos) shadow_utils \<Rightarrow> 'img list \<Rightarrow> 'lbl list \<Rightarrow> (nat \<Rightarrow> 'pos) \<Rightarrow> nat \<Rightarrow> int" where
  "attack_success su images labels pos_of i =
     (case attack su (images ! i) (labels ! i) (pos_of i) of
        (adv, success, num_query) \<Rightarrow> if success then 1 else 0)"

definition attack_queries ::
  "('img, 'lbl, 'k, 'mask, 'pos) shadow_utils \<Rightarrow> 'img list \<Rightarrow> 'lbl list \<Rightarrow> (nat \<Rightarrow> 'pos) \<Rightarrow> nat \<Rightarrow> int" where
  "attack_queries su images labels pos_of i =
     (case attack su (images ! i) (labels ! i) (pos_of i) of
        (adv, success, num_query) \<Rightarrow> num_query)"

definition masks_loaded ::
  "('img, 'lbl, 'k, 'mask, 'pos) shadow_utils \<Rightarrow> ('k, 'mask, 'pos) test_globals \<Rightarrow>
   'lbl list \<Rightarrow> (nat \<Rightarrow> 'mask) \<Rightarrow> (nat \<Rightarrow> 'pos) \<Rightarrow> nat \<Rightarrow> bool" where
  "masks_loaded su g labels mask_of pos_of i =
     (i < length labels
      \<and> MASK_LIST g (judge_mask_type su ''GTSRB'' (labels ! i)) = Some (mask_of i)
      \<and> POSITION_LIST g (judge_mask_type su ''GTSRB'' (labels ! i)) = Some (pos_of i))"

section \<open>Notions for the statements about gen\_extra\_data\<close>

text \<open>
  What the two loops of \<open>gen_extra_data\<close> collect, before any shuffle, for a call at cursor
  \<open>c0\<close>: for every input image in turn \<open>n_each\<close> transformed copies, copy \<open>j\<close> of image \<open>i\<close> made
  at cursor \<open>c0 + 5 * (i * n_each + j)\<close>, and the label of the image \<open>n_each\<close> times.
\<close>

definition copies ::
  "('img, 'arr, 'lbl, 'num) libs \<Rightarrow> nat \<Rightarrow> 'img list \<Rightarrow> int \<Rightarrow> real \<Rightarrow> real \<Rightarrow> real \<Rightarrow> bool \<Rightarrow>
   'arr list" where
  "copies L c0 x_train n_each ang_range shear_range trans_range preprocess =
     map (float32_image L)
       (concat (map (\<lambda>i. map (\<lambda>j. fst (transform_image L (c0 + 5 * (i * nat n_each + j))
                                         (x_train ! i) ang_range shear_range trans_range
                                         preprocess))
                             [0 ..< nat n_each])
                  [0 ..< length x_train]))"

definition copied_labels ::
  "('img, 'arr, 'lbl, 'num) libs \<Rightarrow> 'img list \<Rightarrow> 'lbl list \<Rightarrow> int \<Rightarrow> 'num list" where
  "copied_labels L x_train y_train n_each =
     map (float32_label L)
       (concat (map (\<lambda>i. replicate (nat n_each) (y_train ! i)) [0 ..< length x_train]))"

section \<open>Concrete inputs\<close>

text \<open>
  Small concrete libraries, worlds and command lines, on which the definitions above
  evaluate. An image is a number, its brightness under any mask is that number, the label
  is the mask type, and every mask type has a mask and a position list.
\<close>

definition ex_su :: "(nat, nat, nat, nat, nat) shadow_utils" where
  "ex_su = \<lparr> load_mask = Inr (Some, Some), judge_mask_type = (\<lambda>d l. l),
             brightness = (\<lambda>i m. real i), attack = (\<lambda>i l p. (i, even i, 7)) \<rparr>"

definition ex_su_broken :: "(nat, nat, nat, nat, nat) shadow_utils" where
  "ex_su_broken = ex_su \<lparr> load_mask := Inl FileNotFoundError \<rparr>"

definition ex_globals :: "(nat, nat, nat) test_globals" where
  "ex_globals = \<lparr> POSITION_LIST = Some, MASK_LIST = Some \<rparr>"

definition ex_world :: "(nat, nat) world" where
  "ex_world = \<lparr> listing = map_of [(''./checkpoints/'', [''model_b.pth'', ''model_a.pth''])],
               file_at = map_of [(''./checkpoints/model_a.pth'', StateDict),
                                 (''./checkpoints/model_b.pth'', StateDict),
                                 (''model_c.pth'', StateDict),
                                 (''test.pkl'', DataPickle [119, 120] [0, 0]),
                                 (''dark.pkl'', DataPickle [119, 100] [0, 0]),
                                 (''three.pkl'', DataPickle [120, 119, 100] [0, 0, 0])],
               can_create = (\<lambda>p. True) \<rparr>"

definition ex_world_cwd :: "(nat, nat) world" where
  "ex_world_cwd = ex_world \<lparr> file_at := (file_at ex_world)(''model_b.pth'' \<mapsto> StateDict) \<rparr>"

definition ex_world_empty :: "(nat, nat) world" where
  "ex_world_empty = ex_world \<lparr> listing := map_of [(''./checkpoints/'', [])] \<rparr>"

definition ex_args :: "regime \<Rightarrow> cli_args" where
  "ex_args r = \<lparr> regime = r, data_fraction = 1, train_dataset_location = ''train.pkl'',
                 test_dataset_location = ''test.pkl'', model_to_test = None, proportion = 1 \<rparr>"

definition ex_train :: "cli_args \<Rightarrow> unit io" where
  "ex_train a = ([OpenRead (train_dataset_location a)], Inr ())"

text \<open>
  Libraries whose warps leave the image (a number) as it is, whose generator always draws
  \<open>1 / 2\<close>, and whose shuffle reverses the array: one of the permutations a shuffle can
  produce.
\<close>

definition ex_libs :: "(nat, nat, nat, real) libs" where
  "ex_libs = \<lparr> img_shape = (\<lambda>i. (1, 1, 3)),
               getRotationMatrix2D = (\<lambda>c a s. []),
               getAffineTransform = (\<lambda>p q. []),
               warpAffine = (\<lambda>i m sz. i),
               equalizeHist = (\<lambda>i c. i),
               div_sub = (\<lambda>i a b. i),
               random_sample = (\<lambda>k. 1 / 2),
               random_shuffle = (\<lambda>c xs. rev xs),
               float32_image = (\<lambda>i. i),
               float32_label = real \<rparr>"

section \<open>GtsrbCNN: the size of the concatenated branch vector\<close>

lemma window_out_conv5: "window_out n 5 (Suc 0) 2 = (if n = 0 then Inl RuntimeError else Inr n)"
  by (simp add: window_out_def)

lemma window_out_pool2:
  "window_out n 2 2 0 = (if n < 2 then Inl RuntimeError else Inr (n div 2))"
  by (auto simp: window_out_def le_div_geq)

lemma module_shape:
  "sequential [Conv2d a b 5 1 2, ReLU, Conv2d b b 5 1 2, MaxPool2d 2 2 0, ReLU, Dropout] [a, h, w]
     = (if 2 \<le> h \<and> 2 \<le> w then Inr [b, h div 2, w div 2] else Inl RuntimeError)"
  by (simp add: bind_err_def window_out_conv5 window_out_pool2)

lemma color_map_shape:
  "sequential color_map [3, h, w] = (if 0 < h \<and> 0 < w then Inr [3, h, w] else Inl RuntimeError)"
  by (simp add: color_map_def bind_err_def window_out_def)

lemma module1_shape:
  "sequential module1 [3, h, w] =
     (if 2 \<le> h \<and> 2 \<le> w then Inr [32, h div 2, w div 2] else Inl RuntimeError)"
  unfolding module1_def by (rule module_shape)

lemma module2_shape:
  "sequential module2 [32, h, w] =
     (if 2 \<le> h \<and> 2 \<le> w then Inr [64, h div 2, w div 2] else Inl RuntimeError)"
  unfolding module2_def by (rule module_shape)

lemma module3_shape:
  "sequential module3 [64, h, w] =
     (if 2 \<le> h \<and> 2 \<le> w then Inr [128, h div 2, w div 2] else Inl RuntimeError)"
  unfolding module3_def by (rule module_shape)

text \<open>
  The length of \<open>concat\<close> for any 3-channel input: each module halves height and width
  (rounding down), and an input under 8 pixels in a direction leaves the last pooling
  without a window.
\<close>

lemma concat_shape_image:
  "concat_shape [3, h, w] =
     (if 8 \<le> h \<and> 8 \<le> w
      then Inr [32 * ((h div 2) * (w div 2)) + 64 * ((h div 4) * (w div 4))
                 + 128 * ((h div 8) * (w div 8))]
      else Inl RuntimeError)"
proof -
  have d4: "k div 2 div 2 = k div 4" for k :: nat by (simp add: div_mult2_eq [symmetric])
  have d8: "k div 4 div 2 = k div 8" for k :: nat by (simp add: div_mult2_eq [symmetric])
  have g2: "2 \<le> k div 2 \<longleftrightarrow> 4 \<le> k" for k :: nat by auto
  have g4: "2 \<le> k div 4 \<longleftrightarrow> 8 \<le> k" for k :: nat by auto
  show ?thesis
    unfolding concat_shape_def
    by (auto simp: color_map_shape module1_shape module2_shape module3_shape bind_err_def
        cat1_def flatten_def d4 d8 g2 g4)
qed

lemma features_small:
  assumes "n < 32"
  shows "32 * ((n div 2) * (n div 2)) + 64 * ((n div 4) * (n div 4))
           + 128 * ((n div 8) * (n div 8)) < (14336::nat)"
proof -
  have a: "n div 2 \<le> 15" "n div 4 \<le> 7" "n div 8 \<le> 3" using assms by auto
  have "(n div 2) * (n div 2) \<le> 15 * 15" by (rule mult_le_mono [OF a(1) a(1)])
  moreover have "(n div 4) * (n div 4) \<le> 7 * 7" by (rule mult_le_mono [OF a(2) a(2)])
  moreover have "(n div 8) * (n div 8) \<le> 3 * 3" by (rule mult_le_mono [OF a(3) a(3)])
  ultimately show ?thesis by simp
qed

lemma features_large:
  assumes "34 \<le> n"
  shows "(14336::nat) < 32 * ((n div 2) * (n div 2)) + 64 * ((n div 4) * (n div 4))
           + 128 * ((n div 8) * (n div 8))"
proof -
  have a: "17 \<le> n div 2" "8 \<le> n div 4" "4 \<le> n div 8" using assms by auto
  have "17 * 17 \<le> (n div 2) * (n div 2)" by (rule mult_le_mono [OF a(1) a(1)])
  moreover have "8 * 8 \<le> (n div 4) * (n div 4)" by (rule mult_le_mono [OF a(2) a(2)])
  moreover have "4 * 4 \<le> (n div 8) * (n div 8)" by (rule mult_le_mono [OF a(3) a(3)])
  ultimately show ?thesis by simp
qed

lemma concat_square_iff: "concat_shape [3, n, n] = Inr [14336] \<longleftrightarrow> n = 32 \<or> n = 33"
proof
  assume h: "concat_shape [3, n, n] = Inr [14336]"
  then have n8: "8 \<le> n" by (auto simp: concat_shape_image split: if_splits)
  have eq: "32 * ((n div 2) * (n div 2)) + 64 * ((n div 4) * (n div 4))
           + 128 * ((n div 8) * (n div 8)) = 14336"
    using h n8 by (simp add: concat_shape_image)
  have "\<not> n < 32" using features_small [of n] eq by auto
  moreover have "\<not> 34 \<le> n" using features_large [of n] eq by auto
  ultimately show "n = 32 \<or> n = 33" by arith
next
  assume "n = 32 \<or> n = 33"
  then show "concat_shape [3, n, n] = Inr [14336]"
    by (auto simp: concat_shape_image)
qed

text \<open>
  C4, as the code has it. The vector that \<open>fc1\<close> consumes has length 14336 for a 32x32
  3-channel input, \<open>32 * 16 * 16 + 64 * 8 * 8 + 128 * 4 * 4\<close>, and the network then returns
  43 logits. For a 48x48 input the length is \<open>32 * 24 * 24 + 64 * 12 * 12 + 128 * 6 * 6 = 32256\<close>,
  which \<open>fc1 = Linear(14336, 1024)\<close> rejects. Among the square inputs the length is 14336
  exactly for the sides 32 and 33.
\<close>

theorem gtsrb_concat_length:
  "concat_shape [3, 32, 32] = Inr [14336]
   \<and> forward [3, 32, 32] = Inr [43]
   \<and> concat_shape [3, 48, 48] = Inr [32256]
   \<and> forward [3, 48, 48] = Inl RuntimeError
   \<and> (\<forall>n. concat_shape [3, n, n] = Inr [14336] \<longleftrightarrow> n = 32 \<or> n = 33)"
proof -
  have a: "concat_shape [3, 32, 32] = Inr [14336]" "concat_shape [3, 48, 48] = Inr [32256]"
    by (simp_all add: concat_shape_image)
  have b: "forward [3, 32, 32] = Inr [43]"
    by (simp add: forward_def a bind_err_def fc1_def fc2_def fc3_def)
  have c: "forward [3, 48, 48] = Inl RuntimeError"
    by (simp add: forward_def a bind_err_def fc1_def)
  show ?thesis
    using a b c concat_square_iff by blast
qed

text \<open>
  C4 as stated fails: on a 48x48 3-channel input the concatenated vector does not have
  length 14336.
\<close>

theorem gtsrb_concat_48_counterexample:
  "concat_shape [3, 48, 48] \<noteq> Inr [14336]"
  by (simp add: concat_shape_image)

section \<open>transform\_image: the rotation angle\<close>

text \<open>
  C3. The angle that \<open>transform_image\<close> passes to \<open>getRotationMatrix2D\<close>, with \<open>u\<close> the draw of
  the generator, is \<open>ang_range / 2 + (1 - ang_range) * u\<close>: line 101 passes \<open>ang_range\<close> as the
  lower bound of \<open>np.random.uniform\<close>. For \<open>ang_range = 10\<close> and \<open>u = 1 / 2\<close> the angle is
  \<open>1 / 2\<close>, where \<open>ang_range * u - ang_range / 2\<close> is 0.
\<close>

theorem transform_image_ang_rot:
  "ang_rot (draw_params L c ang_range shear_range trans_range)
     = ang_range / 2 + (1 - ang_range) * random_sample L c
   \<and> ang_rot (draw_params (L\<lparr>random_sample := \<lambda>k. 1 / 2\<rparr>) c 10 shear_range trans_range) = 1 / 2
   \<and> (10::real) * (1 / 2) - 10 / 2 = 0"
  by (simp add: draw_params_def np_random_uniform_def algebra_simps)

section \<open>The command line: dispatch and start-up\<close>

text \<open>
  C5. With the regime \<open>TEST_A\<close>, \<open>main\<close> calls \<open>test.test_regime_a\<close> with four positional
  arguments. The function has the three parameters \<open>testing_dataset\<close>, \<open>device\<close>, \<open>filename\<close>,
  none of them \<open>proportion\<close>, so the call raises a TypeError before the body runs.
\<close>

theorem main_test_a_type_error:
  "regime args = TEST_A \<Longrightarrow>
     map_of test_module_defs ''test_regime_a'' = Some [''testing_dataset'', ''device'', ''filename'']
   \<and> ''proportion'' \<notin> set [''testing_dataset'', ''device'', ''filename'']
   \<and> main su g w train_model args = ([CallMain, Dispatch TEST_A], Inl TypeError)"
  by (simp add: main_def call_test_def call_positional_def test_module_defs_def bind_io_def
      emit_def lift_io_def)

theorem main_test_a_type_error_witness:
  "regime (ex_args TEST_A) = TEST_A
   \<and> main ex_su ex_globals ex_world ex_train (ex_args TEST_A)
       = ([CallMain, Dispatch TEST_A], Inl TypeError)"
  using main_test_a_type_error [of "ex_args TEST_A" ex_su ex_globals ex_world ex_train]
  by (simp add: ex_args_def)

text \<open>
  C9. Every run of \<open>andrewnet.py\<close>, whatever the regime, first imports \<open>test\<close> and calls
  \<open>load_mask()\<close>. When that call raises, the run ends with its exception before \<open>main\<close> is
  called: nothing is dispatched, and the training driver does not run. When it returns, the
  run continues with \<open>main\<close> on the loaded globals.
\<close>

theorem andrewnet_load_mask_first:
  "take 2 (fst (andrewnet su w train_model args)) = [ImportTest, CallLoadMask]
   \<and> (\<forall>e. load_mask su = Inl e \<longrightarrow>
         andrewnet su w train_model args = ([ImportTest, CallLoadMask], Inl e))
   \<and> (\<forall>p m. load_mask su = Inr (p, m) \<longrightarrow>
         andrewnet su w train_model args
           = (case main su \<lparr> POSITION_LIST = p, MASK_LIST = m \<rparr> w train_model args of
                (tr, r) \<Rightarrow> (ImportTest # CallLoadMask # tr, r)))"
  by (auto simp: andrewnet_def import_test_def bind_io_def emit_def lift_io_def return_io_def
      split: sum.splits prod.splits)

theorem andrewnet_load_mask_first_witness:
  "load_mask ex_su_broken = Inl FileNotFoundError
   \<and> andrewnet ex_su_broken ex_world ex_train (ex_args TRAIN)
       = ([ImportTest, CallLoadMask], Inl FileNotFoundError)
   \<and> load_mask ex_su = Inr (Some, Some)
   \<and> andrewnet ex_su ex_world ex_train (ex_args TRAIN)
       = ([ImportTest, CallLoadMask, CallMain, Dispatch TRAIN, OpenRead ''train.pkl''], Inr ())"
  using andrewnet_load_mask_first [of ex_su_broken ex_world ex_train "ex_args TRAIN"]
    andrewnet_load_mask_first [of ex_su ex_world ex_train "ex_args TRAIN"]
  by (simp add: ex_su_broken_def ex_su_def main_def ex_args_def ex_train_def bind_io_def emit_def)

section \<open>test\_regime\_a: resolving the checkpoint\<close>

lemma sorted_le_last: "sorted xs \<Longrightarrow> x \<in> set xs \<Longrightarrow> x \<le> last xs"
  for xs :: "'a::linorder list"
  by (induction xs) auto

lemma last_sort_Max: "xs \<noteq> [] \<Longrightarrow> last (sort xs) = Max (set xs)"
  for xs :: "'a::linorder list"
proof -
  assume ne: "xs \<noteq> []"
  then have ne': "sort xs \<noteq> []" by (metis length_sort length_0_conv)
  have "Max (set (sort xs)) = last (sort xs)"
  proof (rule Max_eqI)
    show "finite (set (sort xs))" by simp
    show "y \<le> last (sort xs)" if "y \<in> set (sort xs)" for y
      using that by (intro sorted_le_last) simp_all
    show "last (sort xs) \<in> set (sort xs)" using ne' by (rule last_in_set)
  qed
  then show ?thesis by simp
qed

lemma py_last_nonempty: "xs \<noteq> [] \<Longrightarrow> py_last xs = Inr (last xs)"
  by (cases xs) (simp_all add: py_last_def)

lemma py_last_sort:
  "py_last (sort xs) = (if xs = [] then Inl IndexError else Inr (Max (set xs)))"
  for xs :: "'a::linorder list"
proof (cases "xs = []")
  case True
  then show ?thesis by (simp add: py_last_def)
next
  case False
  then have "sort xs \<noteq> []" by (metis length_sort length_0_conv)
  then show ?thesis using False by (simp add: py_last_nonempty last_sort_Max)
qed

lemma latest_checkpoint_eq:
  "latest_checkpoint w =
     ([ListDir ''./checkpoints/''],
      case listing w ''./checkpoints/'' of
        None \<Rightarrow> Inl FileNotFoundError
      | Some entries \<Rightarrow> if entries = [] then Inl IndexError else Inr (Max (set entries)))"
  by (simp add: latest_checkpoint_def bind_io_def emit_def raise_io_def lift_io_def py_last_sort
      split: option.splits)

text \<open>
  C8. With no explicit filename (\<open>None\<close> or the empty string) the checkpoint name is the last
  element of the sorted listing of \<open>./checkpoints/\<close>, which is its lexicographically greatest
  entry. When the listing is empty, \<open>files[-1]\<close> raises an IndexError and the run ends there:
  the only effect is the listing, so no model has been constructed, the test set has not
  been opened and no report file has been opened for writing.
\<close>

theorem test_regime_a_latest_checkpoint:
  "(filename = None \<or> filename = Some []) \<and> listing w ''./checkpoints/'' = Some entries \<Longrightarrow>
     (entries \<noteq> [] \<longrightarrow>
        resolve_checkpoint w filename = ([ListDir ''./checkpoints/''], Inr (last (sort entries)))
        \<and> last (sort entries) = Max (set entries))
   \<and> (entries = [] \<longrightarrow>
        test_regime_a su g w testing_dataset device filename
          = ([ListDir ''./checkpoints/''], Inl IndexError)
        \<and> ConstructModel \<notin> set (fst (test_regime_a su g w testing_dataset device filename))
        \<and> OpenRead testing_dataset
             \<notin> set (fst (test_regime_a su g w testing_dataset device filename))
        \<and> (\<forall>p. OpenWrite p \<notin> set (fst (test_regime_a su g w testing_dataset device filename))))"
  by (auto simp: resolve_checkpoint_def latest_checkpoint_eq last_sort_Max test_regime_a_def
      bind_io_def)

lemma ex_sort: "sort [''model_b.pth'', ''model_a.pth''] = [''model_a.pth'', ''model_b.pth'']"
  by simp

theorem test_regime_a_latest_checkpoint_witness:
  "listing ex_world ''./checkpoints/'' = Some [''model_b.pth'', ''model_a.pth'']
   \<and> resolve_checkpoint ex_world None = ([ListDir ''./checkpoints/''], Inr ''model_b.pth'')
   \<and> listing ex_world_empty ''./checkpoints/'' = Some []
   \<and> test_regime_a ex_su ex_globals ex_world_empty ''test.pkl'' PyDevice None
       = ([ListDir ''./checkpoints/''], Inl IndexError)"
  using test_regime_a_latest_checkpoint [of None ex_world "[''model_b.pth'', ''model_a.pth'']"
      ex_su ex_globals "''test.pkl''" PyDevice]
    test_regime_a_latest_checkpoint [of None ex_world_empty "[]"
      ex_su ex_globals "''test.pkl''" PyDevice]
  by (simp add: ex_world_def ex_world_empty_def ex_sort)

section \<open>test\_regime\_a: the attack loop and the report\<close>

lemma attack_body_run:
  assumes "masks_loaded su g labels mask_of pos_of i"
  shows "attack_body su g images labels (s, q) i =
     (if bright su images mask_of i
      then ([CallAttack i],
            Inr (s + attack_success su images labels pos_of i,
                 q + attack_queries su images labels pos_of i))
      else ([], Inr (s, q)))"
  using assms
  by (simp add: attack_body_def bind_io_def lift_io_def py_getitem_def lookup_def emit_def
      return_io_def bright_def attack_success_def attack_queries_def masks_loaded_def
      split: prod.splits)

lemma for_each_attack:
  assumes "\<forall>i\<in>set ixs. masks_loaded su g labels mask_of pos_of i"
  shows "for_each_io (attack_body su g images labels) ixs (s, q) =
     (map CallAttack (filter (bright su images mask_of) ixs),
      Inr (s + sum_list (map (attack_success su images labels pos_of)
                           (filter (bright su images mask_of) ixs)),
           q + sum_list (map (attack_queries su images labels pos_of)
                           (filter (bright su images mask_of) ixs))))"
  using assms
proof (induction ixs arbitrary: s q)
  case Nil
  then show ?case by (simp add: return_io_def)
next
  case (Cons i ixs)
  then have i: "masks_loaded su g labels mask_of pos_of i"
    and rest: "\<forall>j\<in>set ixs. masks_loaded su g labels mask_of pos_of j" by simp_all
  show ?case
    by (simp add: attack_body_run [OF i] Cons.IH [OF rest] bind_io_def)
qed

lemma attack_loop_run:
  assumes "\<forall>i<length images. masks_loaded su g labels mask_of pos_of i"
  shows "attack_loop su g images labels =
     (map CallAttack (filter (bright su images mask_of) [0 ..< length images]),
      Inr (sum_list (map (attack_success su images labels pos_of)
                       (filter (bright su images mask_of) [0 ..< length images])),
           sum_list (map (attack_queries su images labels pos_of)
                       (filter (bright su images mask_of) [0 ..< length images]))))"
  using assms for_each_attack [of "[0 ..< length images]" su g labels mask_of pos_of images 0 0]
  by (simp add: attack_loop_def py_range_def)

lemma binary64_zero: "binary64 0 = 0"
  by (simp add: binary64_def)

text \<open>
  A real whose magnitude, scaled by \<open>2 ^ k\<close>, lies in \<open>[2 ^ 52, 2 ^ 53)\<close> is rounded at
  multiples of \<open>2 ^ (- k)\<close>.
\<close>

lemma binary64_scaled:
  fixes k :: nat
  assumes "2 ^ 52 \<le> \<bar>x\<bar> * 2 ^ k" and "\<bar>x\<bar> * 2 ^ k < 2 ^ 53"
  shows "binary64 x = of_int (round_half_even (x * 2 ^ k)) / 2 ^ k"
proof -
  have nz: "x \<noteq> 0" using assms(1) by auto
  then have pos: "0 < \<bar>x\<bar>" by simp
  have p: "2 powr (of_int (52 - int k)) = (2::real) ^ 52 / 2 ^ k"
    by (simp add: powr_diff powr_realpow [symmetric])
  have p1: "2 powr (of_int (52 - int k) + 1) = (2::real) ^ 53 / 2 ^ k"
    by (simp add: powr_diff powr_add powr_realpow [symmetric])
  have lo: "2 powr (of_int (52 - int k)) \<le> \<bar>x\<bar>"
    unfolding p using assms(1) by (simp add: field_simps)
  have hi: "\<bar>x\<bar> < 2 powr (of_int (52 - int k) + 1)"
    unfolding p1 using assms(2) by (simp add: field_simps)
  have e: "\<lfloor>log 2 \<bar>x\<bar>\<rfloor> = 52 - int k"
    using lo hi by (simp add: floor_log_eq_powr_iff [OF pos])
  have u: "2 powr (- real k) = 1 / (2::real) ^ k"
    by (simp add: powr_minus powr_realpow [symmetric] inverse_eq_divide)
  show ?thesis
    using nz by (simp add: binary64_def Let_def e u)
qed

lemma binary64_one: "binary64 1 = 1"
  using binary64_scaled [of 1 52] by (simp add: round_half_even_def)

lemma py_round_zero: "py_round 0 n = 0"
  by (simp add: py_round_def round_half_even_def binary64_zero)

lemma evaluate_run:
  assumes "\<forall>i<length images. masks_loaded su g labels mask_of pos_of i"
  shows "evaluate su g images labels =
     (map CallAttack (filter (bright su images mask_of) [0 ..< length images]),
      if images = [] then Inl ZeroDivisionError
      else Inr (binary64 (1 - py_round (binary64
                  (of_int (sum_list (map (attack_success su images labels pos_of)
                       (filter (bright su images mask_of) [0 ..< length images])))
                     / of_nat (length images))) 4),
                py_round (binary64
                  (binary64 (of_int (sum_list (map (attack_queries su images labels pos_of)
                       (filter (bright su images mask_of) [0 ..< length images]))))
                     / binary64 (of_nat (length images)))) 4))"
  by (simp add: evaluate_def attack_loop_run [OF assms] bind_io_def lift_io_def
      report_metrics_def)

lemma bind_io_Inr: "m = (tr, Inr x) \<Longrightarrow> bind_io m f = (tr @ fst (f x), snd (f x))"
  by (simp add: bind_io_def split: prod.splits)

lemma bind_io_Inl: "m = (tr, Inl e) \<Longrightarrow> bind_io m f = (tr, Inl e)"
  by (simp add: bind_io_def)

lemma bind_io_trace:
  assumes "set (fst m) \<subseteq> A" and "\<And>x. set (fst (f x)) \<subseteq> A"
  shows "set (fst (bind_io m f)) \<subseteq> A"
proof (cases m)
  case (Pair tr r)
  show ?thesis
  proof (cases r)
    case (Inl e)
    with Pair assms(1) show ?thesis by (simp add: bind_io_def)
  next
    case (Inr x)
    obtain tr' r' where f: "f x = (tr', r')" by (cases "f x")
    from assms(2) [of x] f have "set tr' \<subseteq> A" by simp
    with Pair Inr f assms(1) show ?thesis by (simp add: bind_io_def)
  qed
qed

lemma load_model_eq:
  "load_model w name =
     ([ConstructModel, TorchLoad name],
      case file_at w name of
        None \<Rightarrow> Inl FileNotFoundError
      | Some StateDict \<Rightarrow> Inr ()
      | Some (DataPickle xs ys) \<Rightarrow> Inl RuntimeError
      | Some OtherContent \<Rightarrow> Inl UnpicklingError)"
  by (simp add: load_model_def bind_io_def emit_def raise_io_def return_io_def
      split: option.splits content.splits)

lemma load_test_data_eq:
  "load_test_data w ds =
     ([OpenRead ds],
      case file_at w ds of
        None \<Rightarrow> Inl FileNotFoundError
      | Some (DataPickle images labels) \<Rightarrow> Inr (images, labels)
      | Some StateDict \<Rightarrow> Inl LookupError
      | Some OtherContent \<Rightarrow> Inl UnpicklingError)"
  by (simp add: load_test_data_def bind_io_def emit_def raise_io_def return_io_def
      split: option.splits content.splits)

lemma report_results_eq:
  "report_results w name (r, a) =
     ([PrintRobustness r, PrintAvgQueries a, OpenWrite (results_path name)]
        @ (if can_create w (results_path name) then [PickleDump (results_path name) r a] else []),
      if can_create w (results_path name) then Inr () else Inl FileNotFoundError)"
  by (simp add: report_results_def bind_io_def emit_def raise_io_def)

lemma test_regime_a_from_run:
  assumes "file_at w name = Some StateDict"
    and "file_at w testing_dataset = Some (DataPickle images labels)"
    and "evaluate su g images labels = (tr1, Inr (r, a))"
  shows "test_regime_a_from su g w testing_dataset device name =
     ([ConstructModel, TorchLoad name, OpenRead testing_dataset] @ tr1
        @ [PrintRobustness r, PrintAvgQueries a, OpenWrite (results_path name)]
        @ (if can_create w (results_path name) then [PickleDump (results_path name) r a] else []),
      if can_create w (results_path name) then Inr () else Inl FileNotFoundError)"
  by (simp add: test_regime_a_from_def load_model_eq load_test_data_eq assms report_results_eq
      bind_io_def)

lemma test_regime_a_from_attacks:
  assumes "file_at w name = Some StateDict"
    and "file_at w testing_dataset = Some (DataPickle images labels)"
  shows "(CallAttack i \<in> set (fst (test_regime_a_from su g w testing_dataset device name)))
     = (CallAttack i \<in> set (fst (evaluate su g images labels)))"
proof (cases "evaluate su g images labels")
  case (Pair tr1 res)
  show ?thesis
  proof (cases res)
    case (Inl e)
    then show ?thesis
      by (simp add: test_regime_a_from_def load_model_eq load_test_data_eq assms Pair bind_io_def)
  next
    case (Inr ra)
    obtain r a where ra: "ra = (r, a)" by (cases ra)
    show ?thesis
      using test_regime_a_from_run [OF assms Pair [unfolded Inr ra], of device]
      by (simp add: Pair)
  qed
qed

lemma test_regime_a_from_prefix:
  "\<exists>rest. fst (test_regime_a_from su g w testing_dataset device name)
      = [ConstructModel, TorchLoad name] @ rest"
  by (simp add: test_regime_a_from_def load_model_eq bind_io_def split: sum.splits prod.splits)

lemma test_regime_a_from_missing:
  "file_at w name = None \<Longrightarrow>
   test_regime_a_from su g w testing_dataset device name
     = ([ConstructModel, TorchLoad name], Inl FileNotFoundError)"
  by (simp add: test_regime_a_from_def load_model_eq bind_io_def)

lemma attack_body_trace:
  "set (fst (attack_body su g images labels st i)) \<subseteq> range CallAttack"
  by (auto simp: attack_body_def bind_io_def lift_io_def emit_def return_io_def Let_def
      lookup_def py_getitem_def split: prod.splits sum.splits option.splits if_splits)

lemma for_each_io_trace:
  assumes "\<And>s i. set (fst (body s i)) \<subseteq> A"
  shows "set (fst (for_each_io body ixs s)) \<subseteq> A"
proof (induction ixs arbitrary: s)
  case Nil
  then show ?case by (simp add: return_io_def)
next
  case (Cons i ixs)
  show ?case
    unfolding for_each_io.simps
    by (rule bind_io_trace) (rule assms, rule Cons.IH)
qed

lemma evaluate_trace: "set (fst (evaluate su g images labels)) \<subseteq> range CallAttack"
proof -
  have "set (fst (attack_loop su g images labels)) \<subseteq> range CallAttack"
    unfolding attack_loop_def by (rule for_each_io_trace) (rule attack_body_trace)
  then show ?thesis
    unfolding evaluate_def
    by (rule bind_io_trace) (auto simp: lift_io_def)
qed

lemma report_results_trace:
  "set (fst (report_results w name ra)) \<subseteq>
     {OpenWrite (results_path name)} \<union> range PrintRobustness \<union> range PrintAvgQueries
     \<union> range (\<lambda>(r, a). PickleDump (results_path name) r a)"
proof (cases ra)
  case (Pair r a)
  have "PickleDump (results_path name) r a
      \<in> range (\<lambda>(r, a). PickleDump (results_path name) r a)"
    by (rule range_eqI [of _ _ "(r, a)"]) simp
  then show ?thesis
    unfolding Pair report_results_eq by auto
qed

lemma test_regime_a_from_trace:
  "set (fst (test_regime_a_from su g w testing_dataset device name)) \<subseteq>
     {ConstructModel, TorchLoad name, OpenRead testing_dataset, OpenWrite (results_path name)}
     \<union> range CallAttack \<union> range PrintRobustness \<union> range PrintAvgQueries
     \<union> range (\<lambda>(r, a). PickleDump (results_path name) r a)"
  (is "_ \<subseteq> ?A")
  unfolding test_regime_a_from_def
proof (intro bind_io_trace)
  show "set (fst (load_model w name)) \<subseteq> ?A" by (simp add: load_model_eq)
  show "set (fst (load_test_data w testing_dataset)) \<subseteq> ?A" by (simp add: load_test_data_eq)
  show "set (fst (case x of (images, labels) \<Rightarrow>
          bind_io (evaluate su g images labels) (report_results w name))) \<subseteq> ?A" for x
  proof (cases x)
    case (Pair images labels)
    have "set (fst (bind_io (evaluate su g images labels) (report_results w name))) \<subseteq> ?A"
    proof (rule bind_io_trace)
      show "set (fst (evaluate su g images labels)) \<subseteq> ?A"
        using evaluate_trace [of su g images labels] by blast
      show "set (fst (report_results w name ra)) \<subseteq> ?A" for ra
        using report_results_trace [of w name ra] by blast
    qed
    then show ?thesis by (simp add: Pair)
  qed
qed

lemma resolve_checkpoint_trace:
  "fst (resolve_checkpoint w filename) = [] \<or>
   fst (resolve_checkpoint w filename) = [ListDir ''./checkpoints/'']"
  by (simp add: resolve_checkpoint_def latest_checkpoint_eq return_io_def split: option.splits)


text \<open>
  C6. For every test image, the run of \<open>test_regime_a\<close> (and its loop) calls the attack on the
  image exactly when the brightness of the image under the reference mask of its mask type
  is at least 120: an image of brightness exactly 119 is not attacked, one of brightness
  exactly 120 is.
\<close>

theorem attack_iff_bright:
  assumes "\<forall>i<length images. masks_loaded su g labels mask_of pos_of i"
    and "resolve_checkpoint w filename = (tr0, Inr name)"
    and "file_at w name = Some StateDict"
    and "file_at w testing_dataset = Some (DataPickle images labels)"
  shows "\<forall>i<length images.
      ((CallAttack i \<in> set (fst (test_regime_a su g w testing_dataset device filename)))
         = (120 \<le> brightness su (images ! i) (mask_of i)))
    \<and> ((CallAttack i \<in> set (fst (attack_loop su g images labels)))
         = (120 \<le> brightness su (images ! i) (mask_of i)))
    \<and> (brightness su (images ! i) (mask_of i) = 119 \<longrightarrow>
         CallAttack i \<notin> set (fst (test_regime_a su g w testing_dataset device filename)))
    \<and> (brightness su (images ! i) (mask_of i) = 120 \<longrightarrow>
         CallAttack i \<in> set (fst (test_regime_a su g w testing_dataset device filename)))"
proof (intro allI impI)
  fix i assume i: "i < length images"
  let ?att = "filter (bright su images mask_of) [0 ..< length images]"
  let ?T = "test_regime_a su g w testing_dataset device filename"
  have loop: "fst (attack_loop su g images labels) = map CallAttack ?att"
    by (simp add: attack_loop_run [OF assms(1)])
  have ev: "fst (evaluate su g images labels) = map CallAttack ?att"
    by (simp add: evaluate_run [OF assms(1)])
  have tr0: "CallAttack i \<notin> set tr0"
    using resolve_checkpoint_trace [of w filename] assms(2) by auto
  have mem: "(CallAttack i \<in> set (map CallAttack ?att)) = bright su images mask_of i"
    using i by auto
  have "(CallAttack i \<in> set (fst ?T))
      = (CallAttack i \<in> set (fst (test_regime_a_from su g w testing_dataset device name)))"
    unfolding test_regime_a_def bind_io_Inr [OF assms(2)] using tr0 by simp
  also have "\<dots> = (CallAttack i \<in> set (fst (evaluate su g images labels)))"
    by (rule test_regime_a_from_attacks [OF assms(3) assms(4)])
  finally have run: "(CallAttack i \<in> set (fst ?T)) = bright su images mask_of i"
    unfolding ev mem .
  have lp: "(CallAttack i \<in> set (fst (attack_loop su g images labels)))
      = bright su images mask_of i"
    unfolding loop mem ..
  show "((CallAttack i \<in> set (fst ?T)) = (120 \<le> brightness su (images ! i) (mask_of i)))
    \<and> ((CallAttack i \<in> set (fst (attack_loop su g images labels)))
         = (120 \<le> brightness su (images ! i) (mask_of i)))
    \<and> (brightness su (images ! i) (mask_of i) = 119 \<longrightarrow> CallAttack i \<notin> set (fst ?T))
    \<and> (brightness su (images ! i) (mask_of i) = 120 \<longrightarrow> CallAttack i \<in> set (fst ?T))"
    unfolding run lp by (simp add: bright_def)
qed

text \<open>
  C10. With no explicit filename and a non-empty listing of \<open>./checkpoints/\<close>, the string that
  \<open>test_regime_a\<close> passes to the checkpoint loader is the last sorted entry of the listing
  itself, without the directory in front: the checkpoint is looked up at that path, relative
  to the working directory, never at the path inside \<open>./checkpoints/\<close>, and when no file is
  there the run ends with FileNotFoundError, whatever \<open>./checkpoints/\<close> holds. When the
  checkpoint and the test set are read and the evaluation returns, the run prints the two
  values and writes them to \<open>./testing_results/results_<entry[6:]>.json\<close>, named by the same
  entry without its first 6 characters; no other file is opened for writing.
\<close>

theorem test_regime_a_bare_entry:
  assumes "filename = None \<or> filename = Some []"
    and "listing w ''./checkpoints/'' = Some entries"
    and "entries \<noteq> []"
  shows "last (sort entries) \<in> set entries
    \<and> TorchLoad (''./checkpoints/'' @ last (sort entries))
         \<notin> set (fst (test_regime_a su g w testing_dataset device filename))
    \<and> take 3 (fst (test_regime_a su g w testing_dataset device filename))
        = [ListDir ''./checkpoints/'', ConstructModel, TorchLoad (last (sort entries))]
    \<and> (\<forall>q. TorchLoad q \<in> set (fst (test_regime_a su g w testing_dataset device filename))
           \<longrightarrow> q = last (sort entries))
    \<and> (file_at w (last (sort entries)) = None \<longrightarrow>
         test_regime_a su g w testing_dataset device filename
           = ([ListDir ''./checkpoints/'', ConstructModel, TorchLoad (last (sort entries))],
              Inl FileNotFoundError))
    \<and> (\<forall>images labels tr1 r a.
          file_at w (last (sort entries)) = Some StateDict
          \<and> file_at w testing_dataset = Some (DataPickle images labels)
          \<and> evaluate su g images labels = (tr1, Inr (r, a))
          \<and> can_create w (''./testing_results/results_'' @ drop 6 (last (sort entries))
                              @ ''.json'')
          \<longrightarrow> test_regime_a su g w testing_dataset device filename
              = ([ListDir ''./checkpoints/'', ConstructModel, TorchLoad (last (sort entries)),
                  OpenRead testing_dataset] @ tr1
                 @ [PrintRobustness r, PrintAvgQueries a,
                    OpenWrite (''./testing_results/results_'' @ drop 6 (last (sort entries))
                                 @ ''.json''),
                    PickleDump (''./testing_results/results_'' @ drop 6 (last (sort entries))
                                  @ ''.json'') r a],
                 Inr ()))
    \<and> (\<forall>p. OpenWrite p \<in> set (fst (test_regime_a su g w testing_dataset device filename))
           \<longrightarrow> p = ''./testing_results/results_'' @ drop 6 (last (sort entries)) @ ''.json'')
    \<and> (\<forall>p r a. PickleDump p r a
             \<in> set (fst (test_regime_a su g w testing_dataset device filename))
           \<longrightarrow> p = ''./testing_results/results_'' @ drop 6 (last (sort entries)) @ ''.json'')"
proof -
  let ?e = "last (sort entries)"
  let ?T = "test_regime_a su g w testing_dataset device filename"
  let ?F = "test_regime_a_from su g w testing_dataset device ?e"
  let ?p = "''./testing_results/results_'' @ drop 6 ?e @ ''.json''"
  have res: "resolve_checkpoint w filename = ([ListDir ''./checkpoints/''], Inr ?e)"
    using assms by (auto simp: resolve_checkpoint_def latest_checkpoint_eq last_sort_Max)
  have T: "?T = ([ListDir ''./checkpoints/''] @ fst ?F, snd ?F)"
    unfolding test_regime_a_def by (rule bind_io_Inr [OF res])
  have e_in: "?e \<in> set entries"
    using assms(3) by (simp add: last_sort_Max)
  obtain rest where rest: "fst ?F = [ConstructModel, TorchLoad ?e] @ rest"
    using test_regime_a_from_prefix [of su g w testing_dataset device ?e] by blast
  have tk: "take 3 (fst ?T) = [ListDir ''./checkpoints/'', ConstructModel, TorchLoad ?e]"
    by (simp add: T rest)
  have none: "file_at w ?e = None \<Longrightarrow>
      ?T = ([ListDir ''./checkpoints/'', ConstructModel, TorchLoad ?e], Inl FileNotFoundError)"
    by (simp add: T test_regime_a_from_missing)
  note sub = test_regime_a_from_trace [of su g w testing_dataset device ?e]
  have q: "TorchLoad q \<in> set (fst ?T) \<Longrightarrow> q = ?e" for q
    using sub by (auto simp: T)
  have p: "OpenWrite p \<in> set (fst ?T) \<Longrightarrow> p = results_path ?e" for p
    using sub by (auto simp: T)
  have d: "PickleDump p r a \<in> set (fst ?T) \<Longrightarrow> p = results_path ?e" for p r a
    using sub by (auto simp: T)
  have rp: "results_path ?e = ?p"
    by (simp add: results_path_def)
  have inside: "TorchLoad (''./checkpoints/'' @ ?e) \<notin> set (fst ?T)"
  proof
    assume "TorchLoad (''./checkpoints/'' @ ?e) \<in> set (fst ?T)"
    then have "''./checkpoints/'' @ ?e = ?e" by (rule q)
    then show False by simp
  qed
  have full: "?T = ([ListDir ''./checkpoints/'', ConstructModel, TorchLoad ?e,
                  OpenRead testing_dataset] @ tr1
                 @ [PrintRobustness r, PrintAvgQueries a, OpenWrite ?p, PickleDump ?p r a],
                 Inr ())"
    if "file_at w ?e = Some StateDict
          \<and> file_at w testing_dataset = Some (DataPickle images labels)
          \<and> evaluate su g images labels = (tr1, Inr (r, a))
          \<and> can_create w ?p"
    for images labels tr1 r a
  proof -
    from that have f: "file_at w ?e = Some StateDict"
      and ds: "file_at w testing_dataset = Some (DataPickle images labels)"
      and ev: "evaluate su g images labels = (tr1, Inr (r, a))"
      and cc: "can_create w (results_path ?e)"
      unfolding rp by simp_all
    show ?thesis
      unfolding T test_regime_a_from_run [OF f ds ev] using cc by (simp add: rp)
  qed
  show ?thesis
  proof (intro conjI allI impI)
    show "?e \<in> set entries" by (rule e_in)
    show "TorchLoad (''./checkpoints/'' @ ?e) \<notin> set (fst ?T)" by (rule inside)
    show "take 3 (fst ?T) = [ListDir ''./checkpoints/'', ConstructModel, TorchLoad ?e]"
      by (rule tk)
    show "x = ?e" if "TorchLoad x \<in> set (fst ?T)" for x using that by (rule q)
    show "?T = ([ListDir ''./checkpoints/'', ConstructModel, TorchLoad ?e],
        Inl FileNotFoundError)" if "file_at w ?e = None" using that by (rule none)
    show "?T = ([ListDir ''./checkpoints/'', ConstructModel, TorchLoad ?e,
                  OpenRead testing_dataset] @ tr1
                 @ [PrintRobustness r, PrintAvgQueries a, OpenWrite ?p, PickleDump ?p r a],
                 Inr ())"
      if "file_at w ?e = Some StateDict
          \<and> file_at w testing_dataset = Some (DataPickle images labels)
          \<and> evaluate su g images labels = (tr1, Inr (r, a))
          \<and> can_create w ?p"
      for images labels tr1 r a using that by (rule full)
    show "x = ?p" if "OpenWrite x \<in> set (fst ?T)" for x using p [OF that] rp by (rule trans)
    show "x = ?p" if "PickleDump x r a \<in> set (fst ?T)" for x r a
      using d [OF that] rp by (rule trans)
  qed
qed

section \<open>test\_regime\_a on concrete inputs\<close>

lemma ex_masks_loaded:
  "\<forall>i<length [a, b]. masks_loaded ex_su ex_globals [0, 0] (\<lambda>i. 0) (\<lambda>i. 0) i"
  by (auto simp: masks_loaded_def ex_su_def ex_globals_def nth_Cons' less_Suc_eq)

lemma ex_resolve:
  "resolve_checkpoint ex_world (Some ''model_c.pth'') = ([], Inr ''model_c.pth'')"
  by (simp add: resolve_checkpoint_def return_io_def)

lemma ex_files:
  "file_at ex_world ''model_c.pth'' = Some StateDict"
  "file_at ex_world ''test.pkl'' = Some (DataPickle [119, 120] [0, 0])"
  "file_at ex_world ''dark.pkl'' = Some (DataPickle [119, 100] [0, 0])"
  "file_at ex_world ''./checkpoints/model_b.pth'' = Some StateDict"
  "file_at ex_world ''model_b.pth'' = None"
  by (simp_all add: ex_world_def)


lemma ex_attacked:
  "filter (bright ex_su [119, 120] (\<lambda>i. 0)) [0 ..< length [119, 120::nat]] = [1]"
  "filter (bright ex_su [119, 100] (\<lambda>i. 0)) [0 ..< length [119, 100::nat]] = []"
  by (simp_all add: bright_def ex_su_def)

theorem attack_iff_bright_witness:
  "brightness ex_su ([119, 120] ! 0) 0 = 119
   \<and> CallAttack 0 \<notin> set (fst (test_regime_a ex_su ex_globals ex_world ''test.pkl'' PyDevice
                                  (Some ''model_c.pth'')))
   \<and> brightness ex_su ([119, 120] ! 1) 0 = 120
   \<and> CallAttack 1 \<in> set (fst (test_regime_a ex_su ex_globals ex_world ''test.pkl'' PyDevice
                                  (Some ''model_c.pth'')))"
proof -
  note t = attack_iff_bright [OF ex_masks_loaded ex_resolve ex_files(1) ex_files(2),
      of PyDevice, rule_format]
  have i: "0 < length [119, 120::nat]" "1 < length [119, 120::nat]" by simp_all
  have b0: "brightness ex_su ([119, 120] ! 0) 0 = 119"
    and b1: "brightness ex_su ([119, 120] ! 1) 0 = 120"
    by (simp_all add: ex_su_def)
  have n0: "CallAttack 0 \<notin> set (fst (test_regime_a ex_su ex_globals ex_world ''test.pkl''
      PyDevice (Some ''model_c.pth'')))"
    using t [OF i(1), THEN conjunct2, THEN conjunct2, THEN conjunct1] b0 by (rule mp)
  have n1: "CallAttack 1 \<in> set (fst (test_regime_a ex_su ex_globals ex_world ''test.pkl''
      PyDevice (Some ''model_c.pth'')))"
    using t [OF i(2), THEN conjunct2, THEN conjunct2, THEN conjunct2] b1 by (rule mp)
  show ?thesis
    using b0 n0 b1 n1 by (intro conjI)
qed





text \<open>
  One success and one query on 160 images: the quotient is the float nearest to \<open>0.00625\<close>,
  which lies above \<open>0.00625\<close>, so it rounds to \<open>0.0063\<close>, and the robustness is the float that
  Python prints as \<open>0.9937\<close>.
\<close>

lemma report_metrics_160:
  "report_metrics 1 1 160
     = Inr (2237613474859031 / 2251799813685248, 226981421219473 / 36028797018963968)"
proof -
  have f: "binary64 160 = 160"
    "binary64 (1 / 160) = 3602879701896397 / 576460752303423488"
    "binary64 (63 / 10000) = 226981421219473 / 36028797018963968"
    "binary64 (35801815597744495 / 36028797018963968) = 2237613474859031 / 2251799813685248"
    using binary64_scaled [of 160 45] binary64_scaled [of "1 / 160" 60]
      binary64_scaled [of "63 / 10000" 60]
      binary64_scaled [of "35801815597744495 / 36028797018963968" 53]
    by (simp_all add: round_half_even_def Let_def)
  have r: "py_round (3602879701896397 / 576460752303423488) 4
      = 226981421219473 / 36028797018963968"
    by (simp add: py_round_def round_half_even_def Let_def f)
  show ?thesis
    by (simp add: report_metrics_def Let_def binary64_one f r)
qed


lemma ex_evaluate_dark: "evaluate ex_su ex_globals [119, 100] [0, 0] = ([], Inr (1, 0))"
  unfolding evaluate_run [OF ex_masks_loaded] ex_attacked
  by (simp add: py_round_zero binary64_zero binary64_one)

theorem test_regime_a_bare_entry_witness:
  "listing ex_world ''./checkpoints/'' = Some [''model_b.pth'', ''model_a.pth'']
   \<and> file_at ex_world ''./checkpoints/model_b.pth'' = Some StateDict
   \<and> file_at ex_world ''model_b.pth'' = None
   \<and> test_regime_a ex_su ex_globals ex_world ''dark.pkl'' PyDevice None
       = ([ListDir ''./checkpoints/'', ConstructModel, TorchLoad ''model_b.pth''],
          Inl FileNotFoundError)
   \<and> file_at ex_world_cwd ''model_b.pth'' = Some StateDict
   \<and> test_regime_a ex_su ex_globals ex_world_cwd ''dark.pkl'' PyDevice None
       = ([ListDir ''./checkpoints/'', ConstructModel, TorchLoad ''model_b.pth'',
           OpenRead ''dark.pkl'', PrintRobustness 1, PrintAvgQueries 0,
           OpenWrite ''./testing_results/results_b.pth.json'',
           PickleDump ''./testing_results/results_b.pth.json'' 1 0], Inr ())"
proof -
  have l: "listing ex_world ''./checkpoints/'' = Some [''model_b.pth'', ''model_a.pth'']"
    "listing ex_world_cwd ''./checkpoints/'' = Some [''model_b.pth'', ''model_a.pth'']"
    by (simp_all add: ex_world_def ex_world_cwd_def)
  have n: "[''model_b.pth'', ''model_a.pth''] \<noteq> []" by simp
  have o: "(None::string option) = None \<or> None = Some []" by simp
  have e: "last (sort [''model_b.pth'', ''model_a.pth'']) = ''model_b.pth''"
    unfolding ex_sort by simp
  have f: "file_at ex_world_cwd ''model_b.pth'' = Some StateDict"
    "file_at ex_world_cwd ''dark.pkl'' = Some (DataPickle [119, 100] [0, 0])"
    "can_create ex_world_cwd (''./testing_results/results_'' @ drop 6 ''model_b.pth'' @ ''.json'')"
    by (simp_all add: ex_world_def ex_world_cwd_def)
  note t1 = test_regime_a_bare_entry [OF o l(1) n, of ex_su ex_globals "''dark.pkl''" PyDevice,
      unfolded e, THEN conjunct2, THEN conjunct2, THEN conjunct2, THEN conjunct2, THEN conjunct1]
  note t2 = test_regime_a_bare_entry [OF o l(2) n, of ex_su ex_globals "''dark.pkl''" PyDevice,
      unfolded e, THEN conjunct2, THEN conjunct2, THEN conjunct2, THEN conjunct2, THEN conjunct2,
      THEN conjunct1, rule_format, of "[119, 100]" "[0, 0]" "[]" 1 0]
  have r1: "test_regime_a ex_su ex_globals ex_world ''dark.pkl'' PyDevice None
       = ([ListDir ''./checkpoints/'', ConstructModel, TorchLoad ''model_b.pth''],
          Inl FileNotFoundError)"
    using t1 ex_files(5) by (rule mp)
  have r2: "test_regime_a ex_su ex_globals ex_world_cwd ''dark.pkl'' PyDevice None
       = ([ListDir ''./checkpoints/'', ConstructModel, TorchLoad ''model_b.pth'',
           OpenRead ''dark.pkl'', PrintRobustness 1, PrintAvgQueries 0,
           OpenWrite ''./testing_results/results_b.pth.json'',
           PickleDump ''./testing_results/results_b.pth.json'' 1 0], Inr ())"
    using t2 f ex_evaluate_dark by simp
  show ?thesis
    using l(1) ex_files(4) ex_files(5) r1 f(1) r2 by (intro conjI)
qed

section \<open>gen\_extra\_data: the copies and the shuffle\<close>

lemma snd_transform_image:
  "snd (transform_image L c img a s t p) = c + 5"
  by (simp add: transform_image_def Let_def split: prod.splits)

lemma for_each_append:
  "for_each body (as @ bs) s = bind_err (for_each body as s) (for_each body bs)"
  by (induction as arbitrary: s) (auto simp: bind_err_def split: sum.splits)

lemma gen_body_run:
  assumes "i < length y_train"
  shows "gen_body L x_train y_train a s t p i (xs, ys, c) j =
     Inr (xs @ [fst (transform_image L c (x_train ! i) a s t p)], ys @ [y_train ! i], c + 5)"
proof -
  obtain img c' where tr: "transform_image L c (x_train ! i) a s t p = (img, c')"
    by (cases "transform_image L c (x_train ! i) a s t p")
  with snd_transform_image [of L c "x_train ! i" a s t p] have "c' = c + 5" by simp
  with tr assms show ?thesis by (simp add: gen_body_def py_getitem_def bind_err_def)
qed

lemma inner_loop_run:
  assumes "i < length y_train"
  shows "for_each (gen_body L x_train y_train a s t p i) js (xs, ys, c) =
     Inr (xs @ map (\<lambda>k. fst (transform_image L (c + 5 * k) (x_train ! i) a s t p))
                 [0 ..< length js],
          ys @ replicate (length js) (y_train ! i),
          c + 5 * length js)"
proof (induction js arbitrary: xs ys c)
  case Nil
  then show ?case by simp
next
  case (Cons j js)
  have m: "map (\<lambda>k. fst (transform_image L (c + 5 * k) (x_train ! i) a s t p))
             [0 ..< Suc (length js)]
      = fst (transform_image L c (x_train ! i) a s t p)
        # map (\<lambda>k. fst (transform_image L (c + 5 + 5 * k) (x_train ! i) a s t p))
            [0 ..< length js]"
    by (simp add: upt_conv_Cons map_Suc_upt [symmetric] add.assoc del: upt_Suc)
  show ?case
    by (simp add: gen_body_run [OF assms] bind_err_def Cons.IH m replicate_app_Cons_same
        del: upt_Suc)
qed


lemma nth_concat_uniform:
  assumes "\<forall>r\<in>set rows. length r = n" and "i < length rows" and "j < n"
  shows "concat rows ! (i * n + j) = rows ! i ! j"
  using assms
proof (induction rows arbitrary: i)
  case Nil
  then show ?case by simp
next
  case (Cons r rows)
  then have len: "length r = n" by simp
  show ?case
  proof (cases i)
    case 0
    with Cons.prems len show ?thesis by (simp add: nth_append)
  next
    case (Suc k)
    with Cons.prems have k: "k < length rows" by simp
    have "concat (r # rows) ! (i * n + j) = concat rows ! (k * n + j)"
      using len Suc by (simp add: nth_append)
    also have "\<dots> = rows ! k ! j"
      using Cons.IH [OF _ k Cons.prems(3)] Cons.prems(1) by simp
    finally show ?thesis using Suc by simp
  qed
qed

lemma length_concat_uniform:
  "\<forall>r\<in>set rows. length r = n \<Longrightarrow> length (concat rows) = length rows * n"
  by (induction rows) simp_all


lemma outer_loop_run:
  assumes "m \<le> length y_train"
  shows "for_each
           (\<lambda>st i. for_each (gen_body L x_train y_train a s t p i) (py_range n_each) st)
           [0 ..< m] ([], [], c0) =
     Inr (concat (map (\<lambda>i. map (\<lambda>j. fst (transform_image L (c0 + 5 * (i * nat n_each + j))
                                          (x_train ! i) a s t p))
                              [0 ..< nat n_each]) [0 ..< m]),
          concat (map (\<lambda>i. replicate (nat n_each) (y_train ! i)) [0 ..< m]),
          c0 + 5 * (m * nat n_each))"
    (is "for_each ?outer [0 ..< m] ?s0 = Inr (?X m, ?Y m, ?C m)")
  using assms
proof (induction m)
  case 0
  then show ?case by simp
next
  case (Suc m)
  then have m: "m < length y_train" and le: "m \<le> length y_train" by simp_all
  have ih: "for_each ?outer [0 ..< m] ?s0 = Inr (?X m, ?Y m, ?C m)"
    by (rule Suc.IH [OF le])
  have len: "length (py_range n_each) = nat n_each" by (simp add: py_range_def)
  have c: "?C m + 5 * k = c0 + 5 * (m * nat n_each + k)" for k
    by (simp add: algebra_simps)
  have inner: "?outer (?X m, ?Y m, ?C m) m =
      Inr (?X m @ map (\<lambda>j. fst (transform_image L (c0 + 5 * (m * nat n_each + j))
                                  (x_train ! m) a s t p)) [0 ..< nat n_each],
           ?Y m @ replicate (nat n_each) (y_train ! m),
           ?C m + 5 * nat n_each)"
    using inner_loop_run [OF m, of L x_train a s t p "py_range n_each" "?X m" "?Y m" "?C m"]
    by (simp only: len c)
  have "for_each ?outer [0 ..< Suc m] ?s0
      = bind_err (for_each ?outer [0 ..< m] ?s0) (for_each ?outer [m])"
    by (simp only: upt_Suc_append [OF le0] for_each_append)
  also have "\<dots> = ?outer (?X m, ?Y m, ?C m) m"
    unfolding ih by (simp add: bind_err_def split: sum.splits)
  also have "\<dots> = Inr (?X (Suc m), ?Y (Suc m), ?C (Suc m))"
    unfolding inner by (simp add: algebra_simps)
  finally show ?case .
qed

lemma scatter_length:
  "length (fold (\<lambda>(i, v) a. a[i := v]) ps arr) = length arr"
  by (induction ps arbitrary: arr) (auto split: prod.splits)

lemma scatter_untouched:
  "i \<notin> fst ` set ps \<Longrightarrow> fold (\<lambda>(i, v) a. a[i := v]) ps arr ! i = arr ! i"
  by (induction ps arbitrary: arr) (auto split: prod.splits)

lemma scatter_nth:
  assumes "distinct idx" and "length idx = length vals" and "\<forall>i\<in>set idx. i < length arr"
    and "k < length idx"
  shows "fold (\<lambda>(i, v) a. a[i := v]) (zip idx vals) arr ! (idx ! k) = vals ! k"
  using assms
proof (induction idx arbitrary: vals arr k)
  case Nil
  then show ?case by simp
next
  case (Cons i idx)
  then obtain v vs where vals: "vals = v # vs" by (cases vals) auto
  have notin: "i \<notin> fst ` set (zip idx vs)"
    using Cons.prems(1) by (auto dest: set_zip_leftD)
  show ?case
  proof (cases k)
    case 0
    then show ?thesis
      using Cons.prems(3) by (simp add: vals scatter_untouched [OF notin])
  next
    case (Suc k')
    have "fold (\<lambda>(i, v) a. a[i := v]) (zip idx vs) (arr[i := v]) ! (idx ! k') = vs ! k'"
      using Cons.prems Suc by (intro Cons.IH) (auto simp: vals)
    then show ?thesis by (simp add: vals Suc)
  qed
qed

lemma setitem_fancy_perm:
  assumes "mset perm = mset [0 ..< length arr]"
  shows "\<exists>arr'. setitem_fancy arr perm arr = Inr arr'
           \<and> length arr' = length arr
           \<and> (\<forall>k<length arr. arr' ! (perm ! k) = arr ! k)
           \<and> mset arr' = mset arr"
proof -
  let ?arr' = "fold (\<lambda>(i, v) a. a[i := v]) (zip perm arr) arr"
  have len: "length perm = length arr"
    using mset_eq_length [OF assms] by simp
  have st: "set perm = {0 ..< length arr}"
    using mset_eq_setD [OF assms] by simp
  have dist: "distinct perm"
    using mset_eq_imp_distinct_iff [OF assms] by simp
  have bound: "\<forall>i\<in>set perm. i < length arr" using st by simp
  have run: "setitem_fancy arr perm arr = Inr ?arr'"
    using bound len by (auto simp: setitem_fancy_def list_ex_iff)
  have nth: "?arr' ! (perm ! k) = arr ! k" if "k < length arr" for k
    using scatter_nth [OF dist len bound] that len by simp
  have "arr = map (\<lambda>k. ?arr' ! (perm ! k)) [0 ..< length arr]"
    by (rule nth_equalityI) (simp_all add: nth)
  also have "\<dots> = map ((!) ?arr') (map ((!) perm) [0 ..< length perm])"
    by (simp add: len)
  also have "\<dots> = map ((!) ?arr') perm"
    by (simp only: map_nth)
  finally have "mset arr = image_mset ((!) ?arr') (mset perm)" by (metis mset_map)
  also have "\<dots> = mset (map ((!) ?arr') [0 ..< length ?arr'])"
    by (simp add: assms scatter_length)
  also have "\<dots> = mset ?arr'" by (simp only: map_nth)
  finally have ms: "mset ?arr' = mset arr" by simp
  show ?thesis
    using run nth ms by (simp add: scatter_length)
qed

lemma index_bound: "i < m \<Longrightarrow> j < n \<Longrightarrow> i * n + j < m * (n::nat)"
proof -
  assume i: "i < m" and j: "j < n"
  have "i * n + j < Suc i * n" using j by simp
  also have "\<dots> \<le> m * n" using i by (intro mult_le_mono1) simp
  finally show ?thesis .
qed

lemma length_copies:
  "length (copies L c0 x_train n_each a s t p) = length x_train * nat n_each"
  unfolding copies_def length_map
  by (subst length_concat_uniform [where n = "nat n_each"]) auto

lemma length_copied_labels:
  "length (copied_labels L x_train y_train n_each) = length x_train * nat n_each"
  unfolding copied_labels_def length_map
  by (subst length_concat_uniform [where n = "nat n_each"]) auto

lemma nth_copies:
  assumes "i < length x_train" and "j < nat n_each"
  shows "copies L c0 x_train n_each a s t p ! (i * nat n_each + j) =
     float32_image L (fst (transform_image L (c0 + 5 * (i * nat n_each + j))
                             (x_train ! i) a s t p))"
proof -
  let ?rows = "map (\<lambda>i. map (\<lambda>j. fst (transform_image L (c0 + 5 * (i * nat n_each + j))
                                         (x_train ! i) a s t p))
                             [0 ..< nat n_each]) [0 ..< length x_train]"
  have u: "\<forall>r\<in>set ?rows. length r = nat n_each" by auto
  have b: "i * nat n_each + j < length (concat ?rows)"
    unfolding length_concat_uniform [OF u] using index_bound [OF assms] by simp
  have "concat ?rows ! (i * nat n_each + j) = ?rows ! i ! j"
    by (rule nth_concat_uniform [OF u]) (use assms in simp_all)
  then show ?thesis
    unfolding copies_def using b assms by (simp only: nth_map) simp
qed

lemma nth_copied_labels:
  assumes "i < length x_train" and "j < nat n_each"
  shows "copied_labels L x_train y_train n_each ! (i * nat n_each + j)
     = float32_label L (y_train ! i)"
proof -
  let ?rows = "map (\<lambda>i. replicate (nat n_each) (y_train ! i)) [0 ..< length x_train]"
  have u: "\<forall>r\<in>set ?rows. length r = nat n_each" by auto
  have b: "i * nat n_each + j < length (concat ?rows)"
    unfolding length_concat_uniform [OF u] using index_bound [OF assms] by simp
  have "concat ?rows ! (i * nat n_each + j) = ?rows ! i ! j"
    by (rule nth_concat_uniform [OF u]) (use assms in simp_all)
  then show ?thesis
    unfolding copied_labels_def using b assms by (simp only: nth_map) simp
qed

lemma gen_extra_data_eq:
  assumes "length x_train \<le> length y_train"
  shows "gen_extra_data L c0 x_train y_train n_each a s t randomize_var p =
     (if randomize_var = 1 then
        bind_err (setitem_fancy (copies L c0 x_train n_each a s t p)
                    (random_shuffle L (c0 + 5 * (length x_train * nat n_each))
                       [0 ..< length x_train * nat n_each])
                    (copies L c0 x_train n_each a s t p)) (\<lambda>x_arr'.
        bind_err (setitem_fancy (copied_labels L x_train y_train n_each)
                    (random_shuffle L (c0 + 5 * (length x_train * nat n_each))
                       [0 ..< length x_train * nat n_each])
                    (copied_labels L x_train y_train n_each)) (\<lambda>y_arr'.
          Inr (x_arr', y_arr')))
      else Inr (copies L c0 x_train n_each a s t p, copied_labels L x_train y_train n_each))"
proof -
  have len: "length (concat (map (\<lambda>i. replicate (nat n_each) (y_train ! i))
      [0 ..< length x_train])) = length x_train * nat n_each"
    by (subst length_concat_uniform [where n = "nat n_each"]) auto
  show ?thesis
    unfolding gen_extra_data_def Let_def py_range_def nat_int
      outer_loop_run [OF assms, unfolded py_range_def]
    by (simp add: bind_err_def copies_def copied_labels_def len)
qed

text \<open>
  C7. For \<open>n_each \<ge> 0\<close> copies of each of \<open>n_train\<close> images that all have a label,
  \<open>gen_extra_data\<close> returns \<open>n_train * n_each\<close> images and \<open>n_train * n_each\<close> labels (with
  \<open>randomize_var = 1\<close> as well, when the shuffle returns a permutation of the indices).
  Without the shuffle, the output at index \<open>i * n_each + j\<close> is the float32 array of a
  transformed copy of input image \<open>i\<close> (the one made at the generator's cursor
  \<open>c0 + 5 * (i * n_each + j)\<close>), and its label is the float32 value of \<open>y_train[i]\<close>.
\<close>

theorem gen_extra_data_cardinality:
  assumes "0 \<le> n_each" and "length x_train \<le> length y_train"
    and "randomize_var = 1 \<longrightarrow>
           mset (random_shuffle L (c0 + 5 * (length x_train * nat n_each))
                   [0 ..< length x_train * nat n_each])
             = mset [0 ..< length x_train * nat n_each]"
  shows "\<exists>x_arr y_arr.
      gen_extra_data L c0 x_train y_train n_each a s t randomize_var p = Inr (x_arr, y_arr)
    \<and> int (length x_arr) = int (length x_train) * n_each
    \<and> int (length y_arr) = int (length x_train) * n_each
    \<and> (randomize_var \<noteq> 1 \<longrightarrow>
         (\<forall>i<length x_train. \<forall>j<nat n_each.
            x_arr ! (i * nat n_each + j)
              = float32_image L (fst (transform_image L (c0 + 5 * (i * nat n_each + j))
                                        (x_train ! i) a s t p))
            \<and> y_arr ! (i * nat n_each + j) = float32_label L (y_train ! i)))"
proof -
  let ?N = "length x_train * nat n_each"
  let ?X = "copies L c0 x_train n_each a s t p"
  let ?Y = "copied_labels L x_train y_train n_each"
  have N: "int ?N = int (length x_train) * n_each" using assms(1) by simp
  show ?thesis
  proof (cases "randomize_var = 1")
    case False
    have "gen_extra_data L c0 x_train y_train n_each a s t randomize_var p = Inr (?X, ?Y)"
      using False by (simp add: gen_extra_data_eq [OF assms(2)])
    moreover have "int (length ?X) = int (length x_train) * n_each"
      "int (length ?Y) = int (length x_train) * n_each"
      by (simp_all only: length_copies length_copied_labels N)
    ultimately show ?thesis
      using nth_copies [of _ x_train _ n_each L c0 a s t p]
        nth_copied_labels [of _ x_train _ n_each L y_train]
      by blast
  next
    case True
    let ?perm = "random_shuffle L (c0 + 5 * ?N) [0 ..< ?N]"
    have pm: "mset ?perm = mset [0 ..< ?N]" using assms(3) True by simp
    obtain x' where x': "setitem_fancy ?X ?perm ?X = Inr x'" "length x' = length ?X"
      using setitem_fancy_perm [of ?perm ?X] pm by (auto simp: length_copies)
    obtain y' where y': "setitem_fancy ?Y ?perm ?Y = Inr y'" "length y' = length ?Y"
      using setitem_fancy_perm [of ?perm ?Y] pm by (auto simp: length_copied_labels)
    have "gen_extra_data L c0 x_train y_train n_each a s t randomize_var p = Inr (x', y')"
      using True by (simp add: gen_extra_data_eq [OF assms(2)] x' y' bind_err_def)
    moreover have "int (length x') = int (length x_train) * n_each"
      "int (length y') = int (length x_train) * n_each"
      by (simp_all only: x' y' length_copies length_copied_labels N)
    ultimately show ?thesis using True by blast
  qed
qed

text \<open>
  C2, as the code has it. With \<open>randomize_var = 1\<close> the assignments \<open>x_arr[len_arr] = x_arr\<close> and
  \<open>y_arr[len_arr] = y_arr\<close> scatter both arrays by the shuffled index array \<open>len_arr\<close> (here
  \<open>perm\<close>): the element at position \<open>len_arr[k]\<close> of the returned arrays is element \<open>k\<close> of the
  arrays returned without the shuffle, in both arrays, so the returned arrays are
  permutations of the unshuffled ones of the same length, with images and labels still
  paired. They are the unshuffled arrays when \<open>len_arr\<close> is the identity.
\<close>

theorem gen_extra_data_shuffle:
  assumes "length x_train \<le> length y_train" and "randomize_var \<noteq> 1"
    and "perm = random_shuffle L (c0 + 5 * (length x_train * nat n_each))
                  [0 ..< length x_train * nat n_each]"
    and "mset perm = mset [0 ..< length x_train * nat n_each]"
  shows "\<exists>x_arr y_arr x_shuf y_shuf.
      gen_extra_data L c0 x_train y_train n_each a s t randomize_var p = Inr (x_arr, y_arr)
    \<and> gen_extra_data L c0 x_train y_train n_each a s t 1 p = Inr (x_shuf, y_shuf)
    \<and> length x_shuf = length x_arr \<and> length y_shuf = length y_arr
    \<and> (\<forall>k<length x_train * nat n_each.
          x_shuf ! (perm ! k) = x_arr ! k \<and> y_shuf ! (perm ! k) = y_arr ! k)
    \<and> mset x_shuf = mset x_arr \<and> mset y_shuf = mset y_arr
    \<and> (perm = [0 ..< length x_train * nat n_each] \<longrightarrow> x_shuf = x_arr \<and> y_shuf = y_arr)"
proof -
  let ?N = "length x_train * nat n_each"
  let ?X = "copies L c0 x_train n_each a s t p"
  let ?Y = "copied_labels L x_train y_train n_each"
  have lx: "length ?X = ?N" and ly: "length ?Y = ?N"
    by (simp_all only: length_copies length_copied_labels)
  obtain x' where x': "setitem_fancy ?X perm ?X = Inr x'" "length x' = length ?X"
      "\<forall>k<length ?X. x' ! (perm ! k) = ?X ! k" "mset x' = mset ?X"
    using setitem_fancy_perm [of perm ?X] assms(4) unfolding lx by blast
  obtain y' where y': "setitem_fancy ?Y perm ?Y = Inr y'" "length y' = length ?Y"
      "\<forall>k<length ?Y. y' ! (perm ! k) = ?Y ! k" "mset y' = mset ?Y"
    using setitem_fancy_perm [of perm ?Y] assms(4) unfolding ly by blast
  have plain: "gen_extra_data L c0 x_train y_train n_each a s t randomize_var p = Inr (?X, ?Y)"
    using assms(2) by (simp add: gen_extra_data_eq [OF assms(1)])
  have shuf: "gen_extra_data L c0 x_train y_train n_each a s t 1 p = Inr (x', y')"
    by (simp add: gen_extra_data_eq [OF assms(1)] assms(3) [symmetric] x'(1) y'(1) bind_err_def)
  have idx: "\<forall>k<?N. x' ! (perm ! k) = ?X ! k \<and> y' ! (perm ! k) = ?Y ! k"
    using x'(3) y'(3) unfolding lx ly by simp
  have ident: "x' = ?X \<and> y' = ?Y" if "perm = [0 ..< ?N]"
  proof
    show "x' = ?X"
      by (rule nth_equalityI) (use x'(2) x'(3) that lx in auto)
    show "y' = ?Y"
      by (rule nth_equalityI) (use y'(2) y'(3) that ly in auto)
  qed
  show ?thesis
    using plain shuf x'(2) y'(2) idx x'(4) y'(4) ident by blast
qed

section \<open>gen\_extra\_data on concrete inputs\<close>

lemma ex_transform:
  "fst (transform_image ex_libs c img a s t False) = img"
  by (simp add: transform_image_def ex_libs_def Let_def)

lemma ex_copies:
  "copies ex_libs 0 [10, 20] 1 10 2 2 False = [10, 20]"
  "copied_labels ex_libs [10, 20] [1, 2] 1 = [1, 2]"
  by (simp_all add: copies_def copied_labels_def ex_transform)
    (simp_all add: ex_libs_def)

lemma ex_shuffle:
  "random_shuffle ex_libs c [0 ..< length [10, 20::nat] * nat 1] = [1, 0]"
  by (simp add: ex_libs_def)

lemma ex_scatter:
  "setitem_fancy [a, b] [1, 0] [a, b] = Inr [b, a]"
  by (simp add: setitem_fancy_def)

text \<open>
  C2 as stated fails: with two images, one copy each, and a shuffle that returns the indices
  \<open>[1, 0]\<close>, the arrays returned with \<open>randomize_var = 1\<close> are the arrays returned with
  \<open>randomize_var = 0\<close> in the other order.
\<close>

theorem gen_extra_data_shuffle_counterexample:
  "gen_extra_data ex_libs 0 [10, 20] [1, 2] 1 10 2 2 1 False = Inr ([20, 10], [2, 1])
   \<and> gen_extra_data ex_libs 0 [10, 20] [1, 2] 1 10 2 2 0 False = Inr ([10, 20], [1, 2])
   \<and> gen_extra_data ex_libs 0 [10, 20] [1, 2] 1 10 2 2 1 False
       \<noteq> gen_extra_data ex_libs 0 [10, 20] [1, 2] 1 10 2 2 0 False"
proof -
  have le: "length [10, 20::nat] \<le> length [1, 2::nat]" by simp
  have a: "gen_extra_data ex_libs 0 [10, 20] [1, 2] 1 10 2 2 1 False = Inr ([20, 10], [2, 1])"
    unfolding gen_extra_data_eq [OF le] ex_copies ex_shuffle ex_scatter
    by (simp add: bind_err_def)
  have b: "gen_extra_data ex_libs 0 [10, 20] [1, 2] 1 10 2 2 0 False = Inr ([10, 20], [1, 2])"
    unfolding gen_extra_data_eq [OF le] ex_copies by simp
  show ?thesis
    unfolding a b by simp
qed

theorem gen_extra_data_shuffle_witness:
  "\<exists>x_arr y_arr x_shuf y_shuf.
      gen_extra_data ex_libs 0 [10, 20] [1, 2] 1 10 2 2 0 False = Inr (x_arr, y_arr)
    \<and> gen_extra_data ex_libs 0 [10, 20] [1, 2] 1 10 2 2 1 False = Inr (x_shuf, y_shuf)
    \<and> x_shuf ! 1 = x_arr ! 0 \<and> x_shuf ! 0 = x_arr ! 1
    \<and> y_shuf ! 1 = y_arr ! 0 \<and> y_shuf ! 0 = y_arr ! 1
    \<and> mset x_shuf = mset x_arr \<and> mset y_shuf = mset y_arr"
proof -
  have le: "length [10, 20::nat] \<le> length [1, 2::nat]" by simp
  have rv: "(0::int) \<noteq> 1" by simp
  have pm: "[1, 0] = random_shuffle ex_libs (0 + 5 * (length [10, 20::nat] * nat 1))
      [0 ..< length [10, 20::nat] * nat 1]"
    by (simp add: ex_libs_def)
  have ms: "mset [1, 0::nat] = mset [0 ..< length [10, 20::nat] * nat 1]"
    by simp
  obtain x_arr y_arr x_shuf y_shuf where
    r: "gen_extra_data ex_libs 0 [10, 20] [1, 2] 1 10 2 2 0 False = Inr (x_arr, y_arr)"
       "gen_extra_data ex_libs 0 [10, 20] [1, 2] 1 10 2 2 1 False = Inr (x_shuf, y_shuf)"
    and i: "\<forall>k<length [10, 20::nat] * nat 1.
          x_shuf ! ([1, 0] ! k) = x_arr ! k \<and> y_shuf ! ([1, 0] ! k) = y_arr ! k"
    and m: "mset x_shuf = mset x_arr" "mset y_shuf = mset y_arr"
    using gen_extra_data_shuffle [OF le rv pm ms, of 10 2 2 False] by blast
  have "x_shuf ! 1 = x_arr ! 0 \<and> y_shuf ! 1 = y_arr ! 0"
    using i [rule_format, of 0] by simp
  moreover have "x_shuf ! 0 = x_arr ! 1 \<and> y_shuf ! 0 = y_arr ! 1"
    using i [rule_format, of 1] by simp
  ultimately show ?thesis using r m by blast
qed

theorem gen_extra_data_cardinality_witness:
  "(\<exists>x_arr y_arr.
      gen_extra_data ex_libs 0 [10, 20] [1, 2] 2 10 2 2 0 False = Inr (x_arr, y_arr)
    \<and> length x_arr = 4 \<and> length y_arr = 4
    \<and> x_arr ! 0 = 10 \<and> x_arr ! 1 = 10 \<and> x_arr ! 2 = 20 \<and> x_arr ! 3 = 20
    \<and> y_arr ! 0 = 1 \<and> y_arr ! 1 = 1 \<and> y_arr ! 2 = 2 \<and> y_arr ! 3 = 2)
   \<and> (\<exists>x_arr y_arr.
      gen_extra_data ex_libs 0 [10, 20] [1, 2] 2 10 2 2 1 False = Inr (x_arr, y_arr)
    \<and> length x_arr = 4 \<and> length y_arr = 4)"
proof -
  have n1: "(0::int) \<le> 2" by simp
  have le1: "length [10, 20::nat] \<le> length [1, 2::nat]" by simp
  have rv1: "(1::int) = 1 \<longrightarrow>
           mset (random_shuffle ex_libs (0 + 5 * (length [10, 20::nat] * nat 2))
                   [0 ..< length [10, 20::nat] * nat 2])
             = mset [0 ..< length [10, 20::nat] * nat 2]"
    by (simp add: ex_libs_def)
  obtain xs ys where
    r1: "gen_extra_data ex_libs 0 [10, 20] [1, 2] 2 10 2 2 1 False = Inr (xs, ys)"
    and l1: "int (length xs) = int (length [10, 20::nat]) * 2"
       "int (length ys) = int (length [10, 20::nat]) * 2"
    using gen_extra_data_cardinality [OF n1 le1 rv1, of 10 2 2 False] by auto
  have shuffled: "\<exists>x_arr y_arr.
      gen_extra_data ex_libs 0 [10, 20] [1, 2] 2 10 2 2 1 False = Inr (x_arr, y_arr)
    \<and> length x_arr = 4 \<and> length y_arr = 4"
    using r1 l1 by simp
  have n: "(0::int) \<le> 2" by simp
  have le: "length [10, 20::nat] \<le> length [1, 2::nat]" by simp
  have rv: "(0::int) = 1 \<longrightarrow>
           mset (random_shuffle ex_libs (0 + 5 * (length [10, 20::nat] * nat 2))
                   [0 ..< length [10, 20::nat] * nat 2])
             = mset [0 ..< length [10, 20::nat] * nat 2]" by simp
  obtain x_arr y_arr where
    r: "gen_extra_data ex_libs 0 [10, 20] [1, 2] 2 10 2 2 0 False = Inr (x_arr, y_arr)"
    and l: "int (length x_arr) = int (length [10, 20::nat]) * 2"
       "int (length y_arr) = int (length [10, 20::nat]) * 2"
    and i: "\<forall>i<length [10, 20::nat]. \<forall>j<nat 2.
            x_arr ! (i * nat 2 + j)
              = float32_image ex_libs (fst (transform_image ex_libs (0 + 5 * (i * nat 2 + j))
                                        ([10, 20] ! i) 10 2 2 False))
            \<and> y_arr ! (i * nat 2 + j) = float32_label ex_libs ([1, 2] ! i)"
    using gen_extra_data_cardinality [OF n le rv, of 10 2 2 False] by auto
  have f: "float32_image ex_libs v = v" "float32_label ex_libs k = real k" for v k
    by (simp_all add: ex_libs_def)
  have e: "x_arr ! 0 = 10 \<and> y_arr ! 0 = 1" "x_arr ! 1 = 10 \<and> y_arr ! 1 = 1"
    "x_arr ! 2 = 20 \<and> y_arr ! 2 = 2" "x_arr ! 3 = 20 \<and> y_arr ! 3 = 2"
    using i [rule_format, of 0 0] i [rule_format, of 0 1] i [rule_format, of 1 0]
      i [rule_format, of 1 1]
    by (simp_all add: ex_transform f)
  have "length x_arr = 4" "length y_arr = 4" using l by simp_all
  then have plain: "\<exists>x_arr y_arr.
      gen_extra_data ex_libs 0 [10, 20] [1, 2] 2 10 2 2 0 False = Inr (x_arr, y_arr)
    \<and> length x_arr = 4 \<and> length y_arr = 4
    \<and> x_arr ! 0 = 10 \<and> x_arr ! 1 = 10 \<and> x_arr ! 2 = 20 \<and> x_arr ! 3 = 20
    \<and> y_arr ! 0 = 1 \<and> y_arr ! 1 = 1 \<and> y_arr ! 2 = 2 \<and> y_arr ! 3 = 2"
    using r e by blast
  show ?thesis using plain shuffled by (rule conjI)
qed

end
